theory Spec2Isabelle
  imports Main "HOL-Library.Word"
begin

unbundle bit_operations_syntax

section \<open>Vulkan shader cache: data model\<close>

text \<open>
  The development follows \<^verbatim>\<open>Source/Core/VideoBackends/Vulkan/ShaderCache.cpp\<close>.
  Vulkan handles are 64-bit values, \<^verbatim>\<open>VK_NULL_HANDLE\<close> is 0. The Vulkan driver and
  the shader compiler are outside the program: every call into them is a parameter of
  the function that makes the call.
\<close>

type_synonym u8 = "8 word"
type_synonym u32 = "32 word"
type_synonym VkShaderModule = "64 word"
type_synonym VkPipeline = "64 word"
type_synonym VkPipelineCache = "64 word"

definition VK_NULL_HANDLE :: "64 word" where
  "VK_NULL_HANDLE = 0"

text \<open>\<^verbatim>\<open>VkResult\<close>: success, or an error code of the driver.\<close>

datatype VkResult = VK_SUCCESS | VK_ERROR int

subsection \<open>The pipeline cache header\<close>

definition VK_UUID_SIZE :: nat where
  "VK_UUID_SIZE = 16"

definition VK_PIPELINE_CACHE_HEADER_VERSION_ONE :: u32 where
  "VK_PIPELINE_CACHE_HEADER_VERSION_ONE = 1"

text \<open>
  \<^verbatim>\<open>struct VK_PIPELINE_CACHE_HEADER\<close>, packed to 4 bytes: four \<^verbatim>\<open>u32\<close> and
  \<^verbatim>\<open>u8 uuid[VK_UUID_SIZE]\<close>, so \<^verbatim>\<open>sizeof\<close> is 32.
\<close>

record VK_PIPELINE_CACHE_HEADER =
  header_length :: u32
  header_version :: u32
  vendor_id :: u32
  device_id :: u32
  uuid :: "u8 list"

definition sizeof_VK_PIPELINE_CACHE_HEADER :: nat where
  "sizeof_VK_PIPELINE_CACHE_HEADER = 4 + 4 + 4 + 4 + VK_UUID_SIZE"

text \<open>The fields of \<^verbatim>\<open>VkPhysicalDeviceProperties\<close> that the validation reads.\<close>

record VkPhysicalDeviceProperties =
  vendorID :: u32
  deviceID :: u32
  pipelineCacheUUID :: "u8 list"

text \<open>
  A \<^verbatim>\<open>u32\<close> read from four bytes in memory. The source notes that the data is
  assumed to be little-endian: the first byte is the least significant one.
\<close>

definition load_u32 :: "u8 list \<Rightarrow> u32" where
  "load_u32 bs =
     (ucast (bs ! 0)) OR push_bit 8 (ucast (bs ! 1)) OR
     push_bit 16 (ucast (bs ! 2)) OR push_bit 24 (ucast (bs ! 3))"

text \<open>
  \<^verbatim>\<open>std::memcpy(&header, data, sizeof(header))\<close>: the first 32 bytes of the blob, laid
  over the struct. It is only called on blobs of at least 32 bytes.
\<close>

definition memcpy_header :: "u8 list \<Rightarrow> VK_PIPELINE_CACHE_HEADER" where
  "memcpy_header data =
     \<lparr> header_length = load_u32 (take 4 data),
       header_version = load_u32 (take 4 (drop 4 data)),
       vendor_id = load_u32 (take 4 (drop 8 data)),
       device_id = load_u32 (take 4 (drop 12 data)),
       uuid = take VK_UUID_SIZE (drop 16 data) \<rparr>"

text \<open>
  \<^verbatim>\<open>std::memcmp(a, b, n) != 0\<close> on two buffers that both hold at least \<open>n\<close> bytes.
\<close>

definition memcmp_ne :: "u8 list \<Rightarrow> u8 list \<Rightarrow> nat \<Rightarrow> bool" where
  "memcmp_ne a b n = (take n a \<noteq> take n b)"

text \<open>
  \<^verbatim>\<open>ShaderCache::ValidatePipelineCache(data, data_length)\<close>. The blob is the list
  \<open>data\<close>, and \<open>data_length\<close> its length, as at the only call
  (\<^verbatim>\<open>disk_data.data(), disk_data.size()\<close>). The checks are in the order of the source;
  each failing check logs an error and returns false.
\<close>

definition ValidatePipelineCache :: "VkPhysicalDeviceProperties \<Rightarrow> u8 list \<Rightarrow> bool" where
  "ValidatePipelineCache props data =
     (let data_length = length data in
      if data_length < sizeof_VK_PIPELINE_CACHE_HEADER then False
      else
        let header = memcpy_header data in
        if unat (header_length header) < sizeof_VK_PIPELINE_CACHE_HEADER then False
        else if header_version header \<noteq> VK_PIPELINE_CACHE_HEADER_VERSION_ONE then False
        else if vendor_id header \<noteq> vendorID props then False
        else if device_id header \<noteq> deviceID props then False
        else if memcmp_ne (uuid header) (pipelineCacheUUID props) VK_UUID_SIZE then False
        else True)"

subsection \<open>The linear disk cache\<close>

text \<open>
  \<^verbatim>\<open>LinearDiskCache<K, V>\<close> is defined in \<^verbatim>\<open>Common/LinearDiskCache.h\<close>, outside
  the shader cache. A cache file is the sequence of its records, each a key with a
  payload of \<open>V\<close> elements. The file system maps a file name to the records
  of the file, when the file exists.
\<close>

type_synonym ('k, 'v) disk_file = "('k \<times> 'v list) list"

type_synonym file_system = "string \<rightharpoonup> (u32, u8) disk_file"

text \<open>
  Modelled from the spec: \<^verbatim>\<open>LinearDiskCache::OpenAndRead\<close> is missing. The spec's
  \<^verbatim>\<open>open_and_replay(path, sink)\<close> "opens the backing file if it exists; iterates records in
  file order; for each, invokes \<^verbatim>\<open>sink(key, payload)\<close>". The number it returns, which
  \<^verbatim>\<open>CreatePipelineCache\<close> compares with 1, is the number of records read. The reader's
  \<^verbatim>\<open>Read\<close> acts on a state, given here as a function of the key and the payload.
\<close>

definition OpenAndRead ::
  "('k, 'v) disk_file option \<Rightarrow> ('k \<Rightarrow> 'v list \<Rightarrow> 's \<Rightarrow> 's) \<Rightarrow> 's \<Rightarrow> nat \<times> 's" where
  "OpenAndRead file Read st =
     (case file of
        None \<Rightarrow> (0, st)
      | Some records \<Rightarrow> (length records, foldl (\<lambda>s (key, value). Read key value s) st records))"

text \<open>
  Modelled from the spec: \<^verbatim>\<open>LinearDiskCache::Append\<close> is missing. The spec's
  \<^verbatim>\<open>append(key, payload)\<close> "appends one record to the open file" and "does not rewrite
  earlier records". The callers pass the payload with its length cast to \<^verbatim>\<open>u32\<close>, and
  that many elements are written.
\<close>

definition Append :: "'k \<Rightarrow> 'v list \<Rightarrow> u32 \<Rightarrow> ('k, 'v) disk_file \<Rightarrow> ('k, 'v) disk_file" where
  "Append key value value_size records = records @ [(key, take (unat value_size) value)]"

text \<open>\<^verbatim>\<open>static_cast<u32>(v.size())\<close>.\<close>

definition size_u32 :: "'a list \<Rightarrow> u32" where
  "size_u32 v = of_nat (length v)"

text \<open>\<^verbatim>\<open>File::Delete(filename)\<close>.\<close>

definition File_Delete :: "string \<Rightarrow> file_system \<Rightarrow> file_system" where
  "File_Delete filename fs = fs(filename := None)"

subsection \<open>The driver's pipeline cache object\<close>

text \<open>
  The part of the program state that \<^verbatim>\<open>CreatePipelineCache\<close> and
  \<^verbatim>\<open>SavePipelineCache\<close> read and write: the file system, the members
  \<^verbatim>\<open>m_pipeline_cache\<close> and \<^verbatim>\<open>m_pipeline_cache_filename\<close>, and a log of the initial
  data passed to each \<^verbatim>\<open>vkCreatePipelineCache\<close> call so far.
\<close>

record pipeline_cache_state =
  files :: file_system
  m_pipeline_cache :: VkPipelineCache
  m_pipeline_cache_filename :: string
  vkCreatePipelineCache_calls :: "u8 list list"

text \<open>
  The driver's \<^verbatim>\<open>vkCreatePipelineCache\<close>: its answer may depend on the calls made
  before (the first argument) and on the initial data of this call; it yields the result
  code and the handle written on success.
\<close>

type_synonym vkCreatePipelineCache_fn = "u8 list list \<Rightarrow> u8 list \<Rightarrow> VkResult \<times> VkPipelineCache"

text \<open>
  One \<^verbatim>\<open>vkCreatePipelineCache(device, &info, nullptr, &m_pipeline_cache)\<close> call with
  \<^verbatim>\<open>info.pInitialData\<close> holding \<open>initial_data\<close>. The handle is written on success.
\<close>

definition call_vkCreatePipelineCache ::
  "vkCreatePipelineCache_fn \<Rightarrow> u8 list \<Rightarrow> pipeline_cache_state \<Rightarrow> VkResult \<times> pipeline_cache_state" where
  "call_vkCreatePipelineCache drv initial_data st =
     (let (res, handle) = drv (vkCreatePipelineCache_calls st) initial_data;
          st1 = st\<lparr>vkCreatePipelineCache_calls := vkCreatePipelineCache_calls st @ [initial_data]\<rparr>
      in (res, if res = VK_SUCCESS then st1\<lparr>m_pipeline_cache := handle\<rparr> else st1))"

text \<open>
  \<^verbatim>\<open>PipelineCacheReadCallback::Read\<close>: the vector is resized to the payload and the
  payload copied into it.
\<close>

definition PipelineCacheReadCallback_Read :: "u32 \<Rightarrow> u8 list \<Rightarrow> u8 list \<Rightarrow> u8 list" where
  "PipelineCacheReadCallback_Read key value m_data = value"

text \<open>\<^verbatim>\<open>PipelineCacheReadIgnoreCallback::Read\<close> does nothing.\<close>

definition PipelineCacheReadIgnoreCallback_Read :: "u32 \<Rightarrow> u8 list \<Rightarrow> unit \<Rightarrow> unit" where
  "PipelineCacheReadIgnoreCallback_Read key value u = u"

text \<open>
  \<^verbatim>\<open>ShaderCache::CreatePipelineCache(load_from_disk)\<close>. \<open>filename\<close> is what
  \<^verbatim>\<open>GetDiskShaderCacheFileName(API_VULKAN, "pipeline", true, true)\<close> returns.
\<close>

definition CreatePipelineCache ::
  "VkPhysicalDeviceProperties \<Rightarrow> vkCreatePipelineCache_fn \<Rightarrow> string \<Rightarrow> bool \<Rightarrow>
     pipeline_cache_state \<Rightarrow> bool \<times> pipeline_cache_state" where
  "CreatePipelineCache props drv filename load_from_disk st =
     (let st1 = st\<lparr>m_pipeline_cache_filename := filename\<rparr>;
          disk_data0 = [];
          disk_data1 =
            (if load_from_disk then
               (let (n, d) = OpenAndRead (files st1 (m_pipeline_cache_filename st1))
                               PipelineCacheReadCallback_Read disk_data0
                in if n \<noteq> 1 then [] else d)
             else disk_data0);
          (disk_data2, st2) =
            (if disk_data1 \<noteq> [] \<and> \<not> ValidatePipelineCache props disk_data1
             then ([], st1\<lparr>files := File_Delete (m_pipeline_cache_filename st1) (files st1)\<rparr>)
             else (disk_data1, st1));
          (res, st3) = call_vkCreatePipelineCache drv disk_data2 st2
      in if res = VK_SUCCESS then (True, st3)
         else
           (let (res', st4) = call_vkCreatePipelineCache drv [] st3
            in if res' = VK_SUCCESS then (True, st4) else (False, st4)))"

text \<open>
  \<^verbatim>\<open>ShaderCache::SavePipelineCache()\<close>. The two \<^verbatim>\<open>vkGetPipelineCacheData\<close> calls
  are the parameters: \<open>get_size\<close> is the result of the first, with the size it reports;
  \<open>get_data n\<close> is the result of the second, called on a buffer of \<open>n\<close> bytes, with
  the bytes the driver wrote. The buffer is a zero-filled vector of the reported size, and
  the whole vector is appended under key 1.
\<close>

definition SavePipelineCache ::
  "VkResult \<times> nat \<Rightarrow> (nat \<Rightarrow> VkResult \<times> u8 list) \<Rightarrow> pipeline_cache_state \<Rightarrow> pipeline_cache_state" where
  "SavePipelineCache get_size get_data st =
     (let (res, data_size) = get_size
      in if res \<noteq> VK_SUCCESS then st
         else
           (let (res', written) = get_data data_size;
                data = take data_size (written @ replicate data_size 0)
            in if res' \<noteq> VK_SUCCESS then st
               else
                 (let fs1 = File_Delete (m_pipeline_cache_filename st) (files st);
                      (n, u) = OpenAndRead (fs1 (m_pipeline_cache_filename st))
                                 PipelineCacheReadIgnoreCallback_Read ();
                      opened = (case fs1 (m_pipeline_cache_filename st) of
                                  None \<Rightarrow> [] | Some records \<Rightarrow> records);
                      fs2 = fs1(m_pipeline_cache_filename st \<mapsto> Append 1 data (size_u32 data) opened)
                  in st\<lparr>files := fs2\<rparr>)))"

subsection \<open>Pipeline objects\<close>

text \<open>
  \<^verbatim>\<open>struct PipelineInfo\<close>, the key of \<^verbatim>\<open>m_pipeline_objects\<close>, with the fields that
  \<^verbatim>\<open>CreatePipeline\<close> reads. The four state words are the packed bit fields of the state
  structures; \<^verbatim>\<open>vertex_format\<close> is a pointer. Two keys are equal when all fields are.
\<close>

record PipelineInfo =
  vertex_format :: "64 word"
  pipeline_layout :: "64 word"
  vs :: VkShaderModule
  gs :: VkShaderModule
  ps :: VkShaderModule
  render_pass :: "64 word"
  blend_state :: u32
  rasterization_state :: u32
  depth_state :: u32
  multisampling_state :: u32

record pipeline_objects_state =
  m_pipeline_objects :: "PipelineInfo \<rightharpoonup> (VkPipeline \<times> bool)"
  vkCreateGraphicsPipelines_calls :: "PipelineInfo list"

text \<open>
  The driver's \<^verbatim>\<open>vkCreateGraphicsPipelines\<close>, as a function of the calls made before and
  of the \<^verbatim>\<open>PipelineInfo\<close> from which \<^verbatim>\<open>CreatePipeline\<close> fills the Vulkan descriptor
  structures through its fixed tables.
\<close>

type_synonym vkCreateGraphicsPipelines_fn = "PipelineInfo list \<Rightarrow> PipelineInfo \<Rightarrow> VkResult \<times> VkPipeline"

text \<open>
  \<^verbatim>\<open>ShaderCache::CreatePipeline(info)\<close>: the descriptors are filled, the driver is called
  once, and a result other than \<^verbatim>\<open>VK_SUCCESS\<close> is logged and gives \<^verbatim>\<open>VK_NULL_HANDLE\<close>.
\<close>

definition CreatePipeline ::
  "vkCreateGraphicsPipelines_fn \<Rightarrow> PipelineInfo \<Rightarrow> pipeline_objects_state \<Rightarrow>
     VkPipeline \<times> pipeline_objects_state" where
  "CreatePipeline drv info st =
     (let (res, pipeline) = drv (vkCreateGraphicsPipelines_calls st) info;
          st1 = st\<lparr>vkCreateGraphicsPipelines_calls := vkCreateGraphicsPipelines_calls st @ [info]\<rparr>
      in if res \<noteq> VK_SUCCESS then (VK_NULL_HANDLE, st1) else (pipeline, st1))"

text \<open>\<^verbatim>\<open>ShaderCache::GetPipelineWithCacheResult(info)\<close>.\<close>

definition GetPipelineWithCacheResult ::
  "vkCreateGraphicsPipelines_fn \<Rightarrow> PipelineInfo \<Rightarrow> pipeline_objects_state \<Rightarrow>
     (VkPipeline \<times> bool) \<times> pipeline_objects_state" where
  "GetPipelineWithCacheResult drv info st =
     (case m_pipeline_objects st info of
        Some found \<Rightarrow> (found, st)
      | None \<Rightarrow>
          (let (pipeline, st1) = CreatePipeline drv info st;
               st2 = st1\<lparr>m_pipeline_objects := (m_pipeline_objects st1)(info \<mapsto> (pipeline, True))\<rparr>
           in ((pipeline, False), st2)))"

text \<open>\<^verbatim>\<open>ShaderCache::GetPipeline(info)\<close>.\<close>

definition GetPipeline ::
  "vkCreateGraphicsPipelines_fn \<Rightarrow> PipelineInfo \<Rightarrow> pipeline_objects_state \<Rightarrow>
     VkPipeline \<times> pipeline_objects_state" where
  "GetPipeline drv info st =
     (let (r, st1) = GetPipelineWithCacheResult drv info st in (fst r, st1))"

subsection \<open>Shader variant keys and cache entries\<close>

text \<open>
  A shader uid (\<^verbatim>\<open>VertexShaderUid\<close>, \<^verbatim>\<open>PixelShaderUid\<close>, ...) holds the uid data and a
  cached hash, \<^verbatim>\<open>HASH\<close>. The class is declared in \<^verbatim>\<open>VideoCommon/ShaderGenCommon.h\<close>,
  outside the shader cache; the functions below use its \<^verbatim>\<open>GetUidData\<close>,
  \<^verbatim>\<open>ClearHASH\<close> and \<^verbatim>\<open>CalculateUIDHash\<close>. The shader maps of the model are keyed by
  the whole uid, the cached hash included, since the maps find a key through the hasher
  of the uid.
\<close>

record 'd ShaderUid =
  GetUidData :: 'd
  HASH :: "64 word"

text \<open>
  Modelled from the spec: \<^verbatim>\<open>ClearHASH\<close> is missing. It is the first half of the
  "canonicalization step that strips any cached-hash field before recomputing the hash".
\<close>

definition ClearHASH :: "'d ShaderUid \<Rightarrow> 'd ShaderUid" where
  "ClearHASH uid = uid\<lparr>HASH := 0\<rparr>"

text \<open>
  Modelled from the spec: \<^verbatim>\<open>CalculateUIDHash\<close> is missing. It recomputes the hash "from
  canonical content", here the function \<open>hash_of\<close> of the uid data; a cached hash that
  was not stripped is kept (the spec's "copied through a stale cached value").
\<close>

definition CalculateUIDHash :: "('d \<Rightarrow> 64 word) \<Rightarrow> 'd ShaderUid \<Rightarrow> 'd ShaderUid" where
  "CalculateUIDHash hash_of uid =
     (if HASH uid = 0 then uid\<lparr>HASH := hash_of (GetUidData uid)\<rparr> else uid)"

text \<open>
  \<^verbatim>\<open>struct vkShaderItem\<close> (declared in \<^verbatim>\<open>ShaderCache.h\<close>): the
  \<^verbatim>\<open>std::atomic_flag initialized\<close>, the flag \<^verbatim>\<open>compiled\<close> and the module. A new
  item has a clear flag, \<^verbatim>\<open>compiled\<close> false and no module.
\<close>

record vkShaderItem =
  initialized :: bool
  compiled :: bool
  module :: VkShaderModule

definition new_vkShaderItem :: vkShaderItem where
  "new_vkShaderItem = \<lparr> initialized = False, compiled = False, module = VK_NULL_HANDLE \<rparr>"

text \<open>
  \<^verbatim>\<open>it.initialized.test_and_set()\<close>: sets the flag and returns the value it had. The
  model is sequential; that the step is atomic is not expressed.
\<close>

definition test_and_set :: "vkShaderItem \<Rightarrow> bool \<times> vkShaderItem" where
  "test_and_set it = (initialized it, it\<lparr>initialized := True\<rparr>)"

text \<open>
  \<^verbatim>\<open>std::unordered_map::operator[]\<close> on a shader map: the item of the key, inserted
  as a new item when the key is absent. The source holds a reference to the item and
  writes through it; the model returns the item and the map with the key present, and
  the caller stores the item back under the same key.
\<close>

definition map_index ::
  "'k \<Rightarrow> ('k \<rightharpoonup> vkShaderItem) \<Rightarrow> vkShaderItem \<times> ('k \<rightharpoonup> vkShaderItem)" where
  "map_index key m =
     (case m key of
        Some it \<Rightarrow> (it, m)
      | None \<Rightarrow> (new_vkShaderItem, m(key \<mapsto> new_vkShaderItem)))"

subsection \<open>The usage profiler\<close>

text \<open>
  \<^verbatim>\<open>ObjectUsageProfiler<Uid, pKey_t, vkShaderItem, UidHasher>\<close>
  is defined in \<^verbatim>\<open>Common/ObjectUsageProfiler.h\<close>, outside the shader cache. Its state
  is the item of each known key and, for each usage category, the known keys with their
  usage counts.
\<close>

record ('k, 'c) ObjectUsageProfiler =
  info_map :: "'k \<rightharpoonup> vkShaderItem"
  usage :: "'c \<Rightarrow> ('k \<times> nat) list"

text \<open>
  Modelled from the spec: \<^verbatim>\<open>ObjectUsageProfiler::GetOrAdd\<close> is missing. It is the
  lookup of the spec's "get-or-create primitive": the item of the key, created on a
  miss. The usage accounting of a lookup is left out: the traversal below reads the
  counts as they are when it starts.
\<close>

definition GetOrAdd ::
  "'k \<Rightarrow> ('k, 'c) ObjectUsageProfiler \<Rightarrow> vkShaderItem \<times> ('k, 'c) ObjectUsageProfiler" where
  "GetOrAdd key p = (let (it, m) = map_index key (info_map p) in (it, p\<lparr>info_map := m\<rparr>))"

text \<open>Writing through the reference that \<^verbatim>\<open>GetOrAdd\<close> returned for \<open>key\<close>.\<close>

definition store_item ::
  "'k \<Rightarrow> vkShaderItem \<Rightarrow> ('k, 'c) ObjectUsageProfiler \<Rightarrow> ('k, 'c) ObjectUsageProfiler" where
  "store_item key it p = p\<lparr>info_map := (info_map p)(key \<mapsto> it)\<rparr>"

text \<open>
  The item of a key as the traversal below sees it: a key without an item counts as a
  new item.
\<close>

definition item_of :: "('k, 'c) ObjectUsageProfiler \<Rightarrow> 'k \<Rightarrow> vkShaderItem" where
  "item_of p key = (case info_map p key of None \<Rightarrow> new_vkShaderItem | Some it \<Rightarrow> it)"

text \<open>
  Modelled from the spec: \<^verbatim>\<open>ObjectUsageProfiler::ForEachMostUsedByCategory\<close> is missing.
  The spec's \<^verbatim>\<open>for_each_by_usage(category, visit(key, total_count), skip_predicate,
  most_used_first)\<close> "produces a lazy, finite, ordered traversal of all known keys for
  category, sorted by descending usage count when most_used_first is set", and the
  predicate "filters out keys whose cache entry is already resolved". The caller's
  predicate is \<^verbatim>\<open>!entry.compiled\<close>, so the keys that remain are those whose item
  satisfies the predicate. \<open>candidates\<close> is the list of the keys visited, in order.
\<close>

definition candidates ::
  "('k, 'c) ObjectUsageProfiler \<Rightarrow> 'c \<Rightarrow> (vkShaderItem \<Rightarrow> bool) \<Rightarrow> bool \<Rightarrow> 'k list" where
  "candidates p category predicate most_used_first =
     (let remaining = filter (\<lambda>(key, n). predicate (item_of p key)) (usage p category);
          ordered = (if most_used_first then sort_key (\<lambda>(key, n). - int n) remaining
                     else remaining)
      in map fst ordered)"

text \<open>
  Modelled from the spec: the traversal of \<^verbatim>\<open>ForEachMostUsedByCategory\<close>, which is
  missing. In the spec "visit is invoked once per remaining key" with "the total
  candidate count"; the callbacks in \<^verbatim>\<open>CompileShaders\<close> take the key and the total.
  The visit acts on a state \<open>'s\<close>.
\<close>

definition ForEachMostUsedByCategory ::
  "('k, 'c) ObjectUsageProfiler \<Rightarrow> 'c \<Rightarrow> ('k \<Rightarrow> nat \<Rightarrow> 's \<Rightarrow> 's) \<Rightarrow> (vkShaderItem \<Rightarrow> bool) \<Rightarrow>
     bool \<Rightarrow> 's \<Rightarrow> 's" where
  "ForEachMostUsedByCategory p category visit predicate most_used_first st =
     (let keys = candidates p category predicate most_used_first;
          total_count = length keys
      in foldl (\<lambda>s key. visit key total_count s) st keys)"

subsection \<open>The shader caches\<close>

text \<open>
  The collaborators outside the shader cache: the source generators, the compiler
  (\<^verbatim>\<open>ShaderCompiler::CompileVertexShader\<close> and \<^verbatim>\<open>CompileFragmentShader\<close>, which
  return false or fill the SPIR-V vector), \<^verbatim>\<open>Util::CreateShaderModule\<close> (a module, or
  \<^verbatim>\<open>VK_NULL_HANDLE\<close>), and the hash of the uid data.
\<close>

record ('dv, 'dp) collaborators =
  GenerateVertexShaderCode :: "'dv \<Rightarrow> string"
  GeneratePixelShaderCode :: "'dp \<Rightarrow> string"
  CompileVertexShader :: "string \<Rightarrow> u32 list option"
  CompileFragmentShader :: "string \<Rightarrow> u32 list option"
  CreateShaderModule :: "u32 list \<Rightarrow> VkShaderModule"
  vs_hash_of :: "'dv \<Rightarrow> 64 word"
  ps_hash_of :: "'dp \<Rightarrow> 64 word"

text \<open>
  \<^verbatim>\<open>m_vs_cache\<close> and \<^verbatim>\<open>m_ps_cache\<close>: the profiler that is the shader map, and the
  records of the open disk cache.
\<close>

record ('k, 'c) usage_shader_cache =
  shader_map :: "('k, 'c) ObjectUsageProfiler"
  disk_cache :: "('k, u32) disk_file"

text \<open>
  The state of the shader caches: the two caches, a log of the uids for which the
  compiler was invoked, per stage, and the calls of \<^verbatim>\<open>Host_UpdateProgressDialog\<close>.
\<close>

record ('dv, 'dp, 'c) shader_cache_state =
  m_vs_cache :: "('dv ShaderUid, 'c) usage_shader_cache"
  m_ps_cache :: "('dp ShaderUid, 'c) usage_shader_cache"
  CompileVertexShader_calls :: "'dv ShaderUid list"
  CompileFragmentShader_calls :: "'dp ShaderUid list"
  Host_UpdateProgressDialog_calls :: "(string \<times> int \<times> int) list"

text \<open>
  \<^verbatim>\<open>ShaderCache::CompileVertexShaderForUid(uid, it)\<close>. \<open>it\<close> is the item behind the
  reference; the updated item is returned with the state, and the caller stores it. The
  statistics counters are not part of the state.
\<close>

definition CompileVertexShaderForUid ::
  "('dv, 'dp) collaborators \<Rightarrow> 'dv ShaderUid \<Rightarrow> vkShaderItem \<Rightarrow> ('dv, 'dp, 'c) shader_cache_state \<Rightarrow>
     vkShaderItem \<times> ('dv, 'dp, 'c) shader_cache_state" where
  "CompileVertexShaderForUid ext uid it st =
     (let module0 = VK_NULL_HANDLE;
          source_code = GenerateVertexShaderCode ext (GetUidData uid);
          st1 = st\<lparr>CompileVertexShader_calls := CompileVertexShader_calls st @ [uid]\<rparr>;
          (module1, st2) =
            (case CompileVertexShader ext source_code of
               None \<Rightarrow> (module0, st1)
             | Some spv \<Rightarrow>
                 (let created = CreateShaderModule ext spv
                  in if created \<noteq> VK_NULL_HANDLE
                     then (created,
                           st1\<lparr>m_vs_cache := (m_vs_cache st1)
                                 \<lparr>disk_cache := Append uid spv (size_u32 spv)
                                                    (disk_cache (m_vs_cache st1))\<rparr>\<rparr>)
                     else (created, st1)));
          it1 = it\<lparr>compiled := True\<rparr>;
          it2 = it1\<lparr>module := module1\<rparr>
      in (it2, st2))"

text \<open>\<^verbatim>\<open>ShaderCache::CompilePixelShaderForUid(uid, it)\<close>.\<close>

definition CompilePixelShaderForUid ::
  "('dv, 'dp) collaborators \<Rightarrow> 'dp ShaderUid \<Rightarrow> vkShaderItem \<Rightarrow> ('dv, 'dp, 'c) shader_cache_state \<Rightarrow>
     vkShaderItem \<times> ('dv, 'dp, 'c) shader_cache_state" where
  "CompilePixelShaderForUid ext uid it st =
     (let module0 = VK_NULL_HANDLE;
          source_code = GeneratePixelShaderCode ext (GetUidData uid);
          st1 = st\<lparr>CompileFragmentShader_calls := CompileFragmentShader_calls st @ [uid]\<rparr>;
          (module1, st2) =
            (case CompileFragmentShader ext source_code of
               None \<Rightarrow> (module0, st1)
             | Some spv \<Rightarrow>
                 (let created = CreateShaderModule ext spv
                  in if created \<noteq> VK_NULL_HANDLE
                     then (created,
                           st1\<lparr>m_ps_cache := (m_ps_cache st1)
                                 \<lparr>disk_cache := Append uid spv (size_u32 spv)
                                                    (disk_cache (m_ps_cache st1))\<rparr>\<rparr>)
                     else (created, st1)));
          it1 = it\<lparr>compiled := True\<rparr>;
          it2 = it1\<lparr>module := module1\<rparr>
      in (it2, st2))"

text \<open>The vertex shader map after a write through an item reference.\<close>

definition vs_store ::
  "'dv ShaderUid \<Rightarrow> vkShaderItem \<Rightarrow> ('dv, 'dp, 'c) shader_cache_state \<Rightarrow> ('dv, 'dp, 'c) shader_cache_state" where
  "vs_store key it st =
     st\<lparr>m_vs_cache := (m_vs_cache st)\<lparr>shader_map := store_item key it (shader_map (m_vs_cache st))\<rparr>\<rparr>"

definition ps_store ::
  "'dp ShaderUid \<Rightarrow> vkShaderItem \<Rightarrow> ('dv, 'dp, 'c) shader_cache_state \<Rightarrow> ('dv, 'dp, 'c) shader_cache_state" where
  "ps_store key it st =
     st\<lparr>m_ps_cache := (m_ps_cache st)\<lparr>shader_map := store_item key it (shader_map (m_ps_cache st))\<rparr>\<rparr>"

text \<open>\<^verbatim>\<open>m_vs_cache.shader_map->GetOrAdd(key)\<close> and its pixel twin, on the state.\<close>

definition vs_GetOrAdd ::
  "'dv ShaderUid \<Rightarrow> ('dv, 'dp, 'c) shader_cache_state \<Rightarrow> vkShaderItem \<times> ('dv, 'dp, 'c) shader_cache_state" where
  "vs_GetOrAdd key st =
     (let (it, p) = GetOrAdd key (shader_map (m_vs_cache st))
      in (it, st\<lparr>m_vs_cache := (m_vs_cache st)\<lparr>shader_map := p\<rparr>\<rparr>))"

definition ps_GetOrAdd ::
  "'dp ShaderUid \<Rightarrow> ('dv, 'dp, 'c) shader_cache_state \<Rightarrow> vkShaderItem \<times> ('dv, 'dp, 'c) shader_cache_state" where
  "ps_GetOrAdd key st =
     (let (it, p) = GetOrAdd key (shader_map (m_ps_cache st))
      in (it, st\<lparr>m_ps_cache := (m_ps_cache st)\<lparr>shader_map := p\<rparr>\<rparr>))"

text \<open>\<^verbatim>\<open>ShaderCache::GetVertexShaderForUid(uid)\<close>.\<close>

definition GetVertexShaderForUid ::
  "('dv, 'dp) collaborators \<Rightarrow> 'dv ShaderUid \<Rightarrow> ('dv, 'dp, 'c) shader_cache_state \<Rightarrow>
     VkShaderModule \<times> ('dv, 'dp, 'c) shader_cache_state" where
  "GetVertexShaderForUid ext uid st =
     (let (it, st1) = vs_GetOrAdd uid st;
          (was_set, it1) = test_and_set it;
          st2 = vs_store uid it1 st1
      in if was_set then (module it1, st2)
         else
           (let (it2, st3) = CompileVertexShaderForUid ext uid it1 st2;
                st4 = vs_store uid it2 st3
            in (module it2, st4)))"

text \<open>\<^verbatim>\<open>ShaderCache::GetPixelShaderForUid(uid)\<close>.\<close>

definition GetPixelShaderForUid ::
  "('dv, 'dp) collaborators \<Rightarrow> 'dp ShaderUid \<Rightarrow> ('dv, 'dp, 'c) shader_cache_state \<Rightarrow>
     VkShaderModule \<times> ('dv, 'dp, 'c) shader_cache_state" where
  "GetPixelShaderForUid ext uid st =
     (let (it, st1) = ps_GetOrAdd uid st;
          (was_set, it1) = test_and_set it;
          st2 = ps_store uid it1 st1
      in if was_set then (module it1, st2)
         else
           (let (it2, st3) = CompilePixelShaderForUid ext uid it1 st2;
                st4 = ps_store uid it2 st3
            in (module it2, st4)))"

subsection \<open>Replay of a shader disk cache\<close>

text \<open>
  \<^verbatim>\<open>ShaderUsageCacheReader<Uid, UidHasher>::Read(key, value, value_size)\<close>, the reader
  of the vertex and pixel disk caches; \<open>value\<close> is the payload of \<open>value_size\<close>
  words. The canonical copy \<open>item\<close> of the key is computed as in the source, and, as
  in the source, the map is indexed with \<open>key\<close>.
\<close>

definition ShaderUsageCacheReader_Read ::
  "(u32 list \<Rightarrow> VkShaderModule) \<Rightarrow> ('d \<Rightarrow> 64 word) \<Rightarrow> 'd ShaderUid \<Rightarrow> u32 list \<Rightarrow>
     ('d ShaderUid, 'c) ObjectUsageProfiler \<Rightarrow> ('d ShaderUid, 'c) ObjectUsageProfiler" where
  "ShaderUsageCacheReader_Read create hash_of key value m_shader_map =
     (let created = create value
      in if created = VK_NULL_HANDLE then m_shader_map
         else
           (let item0 = key;
                item1 = ClearHASH item0;
                item = CalculateUIDHash hash_of item1;
                (it, p) = GetOrAdd key m_shader_map;
                (was_set, it1) = test_and_set it;
                it2 = it1\<lparr>compiled := True\<rparr>;
                it3 = it2\<lparr>module := created\<rparr>
            in store_item key it3 p))"

text \<open>
  \<^verbatim>\<open>ShaderCacheReader<Uid, UidHasher>::Read(key, value, value_size)\<close>, the reader of
  the geometry and uber shader disk caches, on a plain \<^verbatim>\<open>std::unordered_map\<close>.
\<close>

definition ShaderCacheReader_Read ::
  "(u32 list \<Rightarrow> VkShaderModule) \<Rightarrow> ('d \<Rightarrow> 64 word) \<Rightarrow> 'd ShaderUid \<Rightarrow> u32 list \<Rightarrow>
     ('d ShaderUid \<rightharpoonup> vkShaderItem) \<Rightarrow> ('d ShaderUid \<rightharpoonup> vkShaderItem)" where
  "ShaderCacheReader_Read create hash_of key value m_shader_map =
     (let created = create value
      in if created = VK_NULL_HANDLE then m_shader_map
         else
           (let item0 = key;
                item1 = ClearHASH item0;
                item = CalculateUIDHash hash_of item1;
                (it, m) = map_index key m_shader_map;
                (was_set, it1) = test_and_set it;
                it2 = it1\<lparr>compiled := True\<rparr>;
                it3 = it2\<lparr>module := created\<rparr>
            in m(key \<mapsto> it3)))"

subsection \<open>Precompilation by usage\<close>

text \<open>
  The callback of the vertex pass of \<^verbatim>\<open>ShaderCache::CompileShaders()\<close>. The local
  \<^verbatim>\<open>shader_count\<close>, captured by reference, is passed along with the state.
\<close>

definition CompileShaders_vertex_visit ::
  "('dv, 'dp) collaborators \<Rightarrow> 'dv ShaderUid \<Rightarrow> nat \<Rightarrow> int \<times> ('dv, 'dp, 'c) shader_cache_state \<Rightarrow>
     int \<times> ('dv, 'dp, 'c) shader_cache_state" where
  "CompileShaders_vertex_visit ext uid total_count = (\<lambda>(shader_count, st).
     (let item0 = uid;
          item1 = ClearHASH item0;
          item = CalculateUIDHash (vs_hash_of ext) item1;
          (it, st1) = vs_GetOrAdd item st;
          (was_set, it1) = test_and_set it;
          st2 = vs_store item it1 st1
      in if \<not> was_set then
           (let (it2, st3) = CompileVertexShaderForUid ext item it1 st2;
                st4 = vs_store item it2 st3
            in (shader_count,
                st4\<lparr>Host_UpdateProgressDialog_calls := Host_UpdateProgressDialog_calls st4 @
                       [(''Compiling Vertex shaders...'', shader_count, int total_count)]\<rparr>))
         else (shader_count, st2)))"

text \<open>The callback of the pixel pass.\<close>

definition CompileShaders_pixel_visit ::
  "('dv, 'dp) collaborators \<Rightarrow> 'dp ShaderUid \<Rightarrow> nat \<Rightarrow> int \<times> ('dv, 'dp, 'c) shader_cache_state \<Rightarrow>
     int \<times> ('dv, 'dp, 'c) shader_cache_state" where
  "CompileShaders_pixel_visit ext uid total_count = (\<lambda>(shader_count, st).
     (let item0 = uid;
          item1 = ClearHASH item0;
          item = CalculateUIDHash (ps_hash_of ext) item1;
          (it, st1) = ps_GetOrAdd item st;
          (was_set, it1) = test_and_set it;
          st2 = ps_store item it1 st1
      in if \<not> was_set then
           (let (it2, st3) = CompilePixelShaderForUid ext item it1 st2;
                st4 = ps_store item it2 st3
            in (shader_count,
                st4\<lparr>Host_UpdateProgressDialog_calls := Host_UpdateProgressDialog_calls st4 @
                       [(''Compiling Pixel shaders...'', shader_count, int total_count)]\<rparr>))
         else (shader_count, st2)))"

text \<open>
  \<^verbatim>\<open>ShaderCache::CompileShaders()\<close>: the vertex pass and the pixel pass over the keys
  of the category \<open>gameid\<close>, most used first, and the closing call of the progress
  dialog. The geometry pass between them enumerates all geometry uids without the
  profiler and works on \<^verbatim>\<open>m_gs_cache\<close> only; it is not part of the model.
\<close>

definition CompileShaders ::
  "('dv, 'dp) collaborators \<Rightarrow> 'c \<Rightarrow> ('dv, 'dp, 'c) shader_cache_state \<Rightarrow> ('dv, 'dp, 'c) shader_cache_state" where
  "CompileShaders ext gameid st =
     (let shader_count = 0;
          (shader_count1, st1) =
            ForEachMostUsedByCategory (shader_map (m_vs_cache st)) gameid
              (CompileShaders_vertex_visit ext) (\<lambda>entry. \<not> compiled entry) True (shader_count, st);
          shader_count2 = 0;
          (shader_count3, st2) =
            ForEachMostUsedByCategory (shader_map (m_ps_cache st1)) gameid
              (CompileShaders_pixel_visit ext) (\<lambda>entry. \<not> compiled entry) True (shader_count2, st1)
      in st2\<lparr>Host_UpdateProgressDialog_calls := Host_UpdateProgressDialog_calls st2 @ [([], -1, -1)]\<rparr>)"

subsection \<open>The geometry and uber shader caches\<close>

text \<open>
  \<^verbatim>\<open>m_gs_cache\<close>, \<^verbatim>\<open>m_vus_cache\<close> and \<^verbatim>\<open>m_pus_cache\<close> hold a plain
  \<^verbatim>\<open>std::unordered_map\<close> as shader map. They are members of the same object as the
  vertex and pixel caches; the model keeps them in a record of their own, with the shader
  map and the disk cache records of each cache and a log of the uids for which each of
  their compile functions invoked the compiler.
\<close>

record ('dg, 'uv, 'up) plain_caches_state =
  gs_shader_map :: "'dg ShaderUid \<rightharpoonup> vkShaderItem"
  gs_disk_cache :: "('dg ShaderUid, u32) disk_file"
  vus_shader_map :: "'uv ShaderUid \<rightharpoonup> vkShaderItem"
  vus_disk_cache :: "('uv ShaderUid, u32) disk_file"
  pus_shader_map :: "'up ShaderUid \<rightharpoonup> vkShaderItem"
  pus_disk_cache :: "('up ShaderUid, u32) disk_file"
  CompileGeometryShader_calls :: "'dg ShaderUid list"
  CompileVertexUberShader_calls :: "'uv ShaderUid list"
  CompilePixelUberShader_calls :: "'up ShaderUid list"

text \<open>
  The further collaborators of these caches: the source generators
  \<^verbatim>\<open>GenerateGeometryShaderCode\<close>, \<^verbatim>\<open>UberShader::GenVertexShader\<close> and
  \<^verbatim>\<open>UberShader::GenPixelShader\<close>, and \<^verbatim>\<open>ShaderCompiler::CompileGeometryShader\<close>.
  The uber shaders go through the vertex and the fragment compiler of the first record.
\<close>

record ('dg, 'uv, 'up) more_collaborators =
  GenerateGeometryShaderCode :: "'dg \<Rightarrow> string"
  GenVertexShader :: "'uv \<Rightarrow> string"
  GenPixelShader :: "'up \<Rightarrow> string"
  CompileGeometryShader :: "string \<Rightarrow> u32 list option"

text \<open>\<^verbatim>\<open>ShaderCache::CompileGeometryShaderForUid(uid, it)\<close>, which appends to \<^verbatim>\<open>m_gs_cache.disk_cache\<close>.\<close>

definition CompileGeometryShaderForUid ::
  "('dv, 'dp) collaborators \<Rightarrow> ('dg, 'uv, 'up) more_collaborators \<Rightarrow> 'dg ShaderUid \<Rightarrow> vkShaderItem \<Rightarrow>
     ('dg, 'uv, 'up) plain_caches_state \<Rightarrow> vkShaderItem \<times> ('dg, 'uv, 'up) plain_caches_state" where
  "CompileGeometryShaderForUid ext gen uid it st =
     (let module0 = VK_NULL_HANDLE;
          source_code = GenerateGeometryShaderCode gen (GetUidData uid);
          st1 = st\<lparr>CompileGeometryShader_calls := CompileGeometryShader_calls st @ [uid]\<rparr>;
          (module1, st2) =
            (case CompileGeometryShader gen source_code of
               None \<Rightarrow> (module0, st1)
             | Some spv \<Rightarrow>
                 (let created = CreateShaderModule ext spv
                  in if created \<noteq> VK_NULL_HANDLE
                     then (created,
                           st1\<lparr>gs_disk_cache := Append uid spv (size_u32 spv) (gs_disk_cache st1)\<rparr>)
                     else (created, st1)));
          it1 = it\<lparr>compiled := True\<rparr>;
          it2 = it1\<lparr>module := module1\<rparr>
      in (it2, st2))"

text \<open>
  \<^verbatim>\<open>ShaderCache::GetGeometryShaderForUid(uid)\<close>, with \<^verbatim>\<open>m_gs_cache.shader_map[uid]\<close> as the
  item. The assertion that the device supports geometry shaders is not part of the model.
\<close>

definition GetGeometryShaderForUid ::
  "('dv, 'dp) collaborators \<Rightarrow> ('dg, 'uv, 'up) more_collaborators \<Rightarrow> 'dg ShaderUid \<Rightarrow>
     ('dg, 'uv, 'up) plain_caches_state \<Rightarrow> VkShaderModule \<times> ('dg, 'uv, 'up) plain_caches_state" where
  "GetGeometryShaderForUid ext gen uid st =
     (let (it, m) = map_index uid (gs_shader_map st);
          st1 = st\<lparr>gs_shader_map := m\<rparr>;
          (was_set, it1) = test_and_set it;
          st2 = st1\<lparr>gs_shader_map := (gs_shader_map st1)(uid \<mapsto> it1)\<rparr>
      in if was_set then (module it1, st2)
         else
           (let (it2, st3) = CompileGeometryShaderForUid ext gen uid it1 st2;
                st4 = st3\<lparr>gs_shader_map := (gs_shader_map st3)(uid \<mapsto> it2)\<rparr>
            in (module it2, st4)))"

text \<open>\<^verbatim>\<open>ShaderCache::CompileVertexUberShaderForUid(uid, it)\<close>, which appends to \<^verbatim>\<open>m_vus_cache.disk_cache\<close>.\<close>

definition CompileVertexUberShaderForUid ::
  "('dv, 'dp) collaborators \<Rightarrow> ('dg, 'uv, 'up) more_collaborators \<Rightarrow> 'uv ShaderUid \<Rightarrow> vkShaderItem \<Rightarrow>
     ('dg, 'uv, 'up) plain_caches_state \<Rightarrow> vkShaderItem \<times> ('dg, 'uv, 'up) plain_caches_state" where
  "CompileVertexUberShaderForUid ext gen uid it st =
     (let module0 = VK_NULL_HANDLE;
          source_code = GenVertexShader gen (GetUidData uid);
          st1 = st\<lparr>CompileVertexUberShader_calls := CompileVertexUberShader_calls st @ [uid]\<rparr>;
          (module1, st2) =
            (case CompileVertexShader ext source_code of
               None \<Rightarrow> (module0, st1)
             | Some spv \<Rightarrow>
                 (let created = CreateShaderModule ext spv
                  in if created \<noteq> VK_NULL_HANDLE
                     then (created,
                           st1\<lparr>vus_disk_cache := Append uid spv (size_u32 spv) (vus_disk_cache st1)\<rparr>)
                     else (created, st1)));
          it1 = it\<lparr>compiled := True\<rparr>;
          it2 = it1\<lparr>module := module1\<rparr>
      in (it2, st2))"

text \<open>
  \<^verbatim>\<open>ShaderCache::GetVertexUberShaderForUid(uid)\<close>, with \<^verbatim>\<open>m_vus_cache.shader_map[uid]\<close> as the
  item.
\<close>

definition GetVertexUberShaderForUid ::
  "('dv, 'dp) collaborators \<Rightarrow> ('dg, 'uv, 'up) more_collaborators \<Rightarrow> 'uv ShaderUid \<Rightarrow>
     ('dg, 'uv, 'up) plain_caches_state \<Rightarrow> VkShaderModule \<times> ('dg, 'uv, 'up) plain_caches_state" where
  "GetVertexUberShaderForUid ext gen uid st =
     (let (it, m) = map_index uid (vus_shader_map st);
          st1 = st\<lparr>vus_shader_map := m\<rparr>;
          (was_set, it1) = test_and_set it;
          st2 = st1\<lparr>vus_shader_map := (vus_shader_map st1)(uid \<mapsto> it1)\<rparr>
      in if was_set then (module it1, st2)
         else
           (let (it2, st3) = CompileVertexUberShaderForUid ext gen uid it1 st2;
                st4 = st3\<lparr>vus_shader_map := (vus_shader_map st3)(uid \<mapsto> it2)\<rparr>
            in (module it2, st4)))"

text \<open>\<^verbatim>\<open>ShaderCache::CompilePixelUberShaderForUid(uid, it)\<close>, which appends to \<^verbatim>\<open>m_pus_cache.disk_cache\<close>.\<close>

definition CompilePixelUberShaderForUid ::
  "('dv, 'dp) collaborators \<Rightarrow> ('dg, 'uv, 'up) more_collaborators \<Rightarrow> 'up ShaderUid \<Rightarrow> vkShaderItem \<Rightarrow>
     ('dg, 'uv, 'up) plain_caches_state \<Rightarrow> vkShaderItem \<times> ('dg, 'uv, 'up) plain_caches_state" where
  "CompilePixelUberShaderForUid ext gen uid it st =
     (let module0 = VK_NULL_HANDLE;
          source_code = GenPixelShader gen (GetUidData uid);
          st1 = st\<lparr>CompilePixelUberShader_calls := CompilePixelUberShader_calls st @ [uid]\<rparr>;
          (module1, st2) =
            (case CompileFragmentShader ext source_code of
               None \<Rightarrow> (module0, st1)
             | Some spv \<Rightarrow>
                 (let created = CreateShaderModule ext spv
                  in if created \<noteq> VK_NULL_HANDLE
                     then (created,
                           st1\<lparr>pus_disk_cache := Append uid spv (size_u32 spv) (pus_disk_cache st1)\<rparr>)
                     else (created, st1)));
          it1 = it\<lparr>compiled := True\<rparr>;
          it2 = it1\<lparr>module := module1\<rparr>
      in (it2, st2))"

text \<open>
  \<^verbatim>\<open>ShaderCache::GetPixelUberShaderForUid(uid)\<close>, with \<^verbatim>\<open>m_pus_cache.shader_map[uid]\<close> as the
  item.
\<close>

definition GetPixelUberShaderForUid ::
  "('dv, 'dp) collaborators \<Rightarrow> ('dg, 'uv, 'up) more_collaborators \<Rightarrow> 'up ShaderUid \<Rightarrow>
     ('dg, 'uv, 'up) plain_caches_state \<Rightarrow> VkShaderModule \<times> ('dg, 'uv, 'up) plain_caches_state" where
  "GetPixelUberShaderForUid ext gen uid st =
     (let (it, m) = map_index uid (pus_shader_map st);
          st1 = st\<lparr>pus_shader_map := m\<rparr>;
          (was_set, it1) = test_and_set it;
          st2 = st1\<lparr>pus_shader_map := (pus_shader_map st1)(uid \<mapsto> it1)\<rparr>
      in if was_set then (module it1, st2)
         else
           (let (it2, st3) = CompilePixelUberShaderForUid ext gen uid it1 st2;
                st4 = st3\<lparr>pus_shader_map := (pus_shader_map st3)(uid \<mapsto> it2)\<rparr>
            in (module it2, st4)))"

subsection \<open>Runs of requests\<close>

text \<open>
  A run of requests to the shader caches, one after the other: the renderer's lookups
  of a vertex, pixel, geometry, vertex uber or pixel uber shader, and precompilation
  passes. The state is the pair of the two records of caches.
\<close>

datatype ('dv, 'dp, 'dg, 'uv, 'up, 'c) request =
  VertexLookup "'dv ShaderUid"
| PixelLookup "'dp ShaderUid"
| GeometryLookup "'dg ShaderUid"
| VertexUberLookup "'uv ShaderUid"
| PixelUberLookup "'up ShaderUid"
| Precompile 'c

fun request_step ::
  "('dv, 'dp) collaborators \<Rightarrow> ('dg, 'uv, 'up) more_collaborators \<Rightarrow>
     ('dv, 'dp, 'c) shader_cache_state \<times> ('dg, 'uv, 'up) plain_caches_state \<Rightarrow>
     ('dv, 'dp, 'dg, 'uv, 'up, 'c) request \<Rightarrow>
     ('dv, 'dp, 'c) shader_cache_state \<times> ('dg, 'uv, 'up) plain_caches_state" where
  "request_step ext gen (st, ot) (VertexLookup uid) = (snd (GetVertexShaderForUid ext uid st), ot)"
| "request_step ext gen (st, ot) (PixelLookup uid) = (snd (GetPixelShaderForUid ext uid st), ot)"
| "request_step ext gen (st, ot) (GeometryLookup uid) =
     (st, snd (GetGeometryShaderForUid ext gen uid ot))"
| "request_step ext gen (st, ot) (VertexUberLookup uid) =
     (st, snd (GetVertexUberShaderForUid ext gen uid ot))"
| "request_step ext gen (st, ot) (PixelUberLookup uid) =
     (st, snd (GetPixelUberShaderForUid ext gen uid ot))"
| "request_step ext gen (st, ot) (Precompile gameid) = (CompileShaders ext gameid st, ot)"

definition run_requests ::
  "('dv, 'dp) collaborators \<Rightarrow> ('dg, 'uv, 'up) more_collaborators \<Rightarrow>
     ('dv, 'dp, 'dg, 'uv, 'up, 'c) request list \<Rightarrow>
     ('dv, 'dp, 'c) shader_cache_state \<times> ('dg, 'uv, 'up) plain_caches_state \<Rightarrow>
     ('dv, 'dp, 'c) shader_cache_state \<times> ('dg, 'uv, 'up) plain_caches_state" where
  "run_requests ext gen rs s = foldl (request_step ext gen) s rs"

subsection \<open>Notions for stating the properties\<close>

text \<open>The entry of a key in the vertex and in the pixel shader map.\<close>

definition vs_entry :: "('dv, 'dp, 'c) shader_cache_state \<Rightarrow> 'dv ShaderUid \<Rightarrow> vkShaderItem option" where
  "vs_entry st uid = info_map (shader_map (m_vs_cache st)) uid"

definition ps_entry :: "('dv, 'dp, 'c) shader_cache_state \<Rightarrow> 'dp ShaderUid \<Rightarrow> vkShaderItem option" where
  "ps_entry st uid = info_map (shader_map (m_ps_cache st)) uid"

text \<open>An entry is resolved when it exists and its flag \<^verbatim>\<open>initialized\<close> is set.\<close>

definition resolved :: "vkShaderItem option \<Rightarrow> bool" where
  "resolved e = (case e of None \<Rightarrow> False | Some it \<Rightarrow> initialized it)"

text \<open>
  The module that the collaborators yield for a uid: \<^verbatim>\<open>VK_NULL_HANDLE\<close> when the
  compiler rejects the generated source, and what \<^verbatim>\<open>Util::CreateShaderModule\<close> returns
  for the compiled code otherwise.
\<close>

definition vertex_module :: "('dv, 'dp) collaborators \<Rightarrow> 'dv ShaderUid \<Rightarrow> VkShaderModule" where
  "vertex_module ext uid =
     (case CompileVertexShader ext (GenerateVertexShaderCode ext (GetUidData uid)) of
        None \<Rightarrow> VK_NULL_HANDLE
      | Some spv \<Rightarrow> CreateShaderModule ext spv)"

definition pixel_module :: "('dv, 'dp) collaborators \<Rightarrow> 'dp ShaderUid \<Rightarrow> VkShaderModule" where
  "pixel_module ext uid =
     (case CompileFragmentShader ext (GeneratePixelShaderCode ext (GetUidData uid)) of
        None \<Rightarrow> VK_NULL_HANDLE
      | Some spv \<Rightarrow> CreateShaderModule ext spv)"

text \<open>
  The invariant of the compile logs: no uid occurs twice in a log, and every uid in a
  log has a resolved entry.
\<close>

definition compiled_once :: "('dv, 'dp, 'c) shader_cache_state \<Rightarrow> bool" where
  "compiled_once st \<longleftrightarrow>
     distinct (CompileVertexShader_calls st) \<and>
     (\<forall>uid \<in> set (CompileVertexShader_calls st). resolved (vs_entry st uid)) \<and>
     distinct (CompileFragmentShader_calls st) \<and>
     (\<forall>uid \<in> set (CompileFragmentShader_calls st). resolved (ps_entry st uid))"

text \<open>The modules that the collaborators yield for the uids of the other three caches.\<close>

definition geometry_module ::
  "('dv, 'dp) collaborators \<Rightarrow> ('dg, 'uv, 'up) more_collaborators \<Rightarrow> 'dg ShaderUid \<Rightarrow> VkShaderModule" where
  "geometry_module ext gen uid =
     (case CompileGeometryShader gen (GenerateGeometryShaderCode gen (GetUidData uid)) of
        None \<Rightarrow> VK_NULL_HANDLE
      | Some spv \<Rightarrow> CreateShaderModule ext spv)"

definition vertex_uber_module ::
  "('dv, 'dp) collaborators \<Rightarrow> ('dg, 'uv, 'up) more_collaborators \<Rightarrow> 'uv ShaderUid \<Rightarrow> VkShaderModule" where
  "vertex_uber_module ext gen uid =
     (case CompileVertexShader ext (GenVertexShader gen (GetUidData uid)) of
        None \<Rightarrow> VK_NULL_HANDLE
      | Some spv \<Rightarrow> CreateShaderModule ext spv)"

definition pixel_uber_module ::
  "('dv, 'dp) collaborators \<Rightarrow> ('dg, 'uv, 'up) more_collaborators \<Rightarrow> 'up ShaderUid \<Rightarrow> VkShaderModule" where
  "pixel_uber_module ext gen uid =
     (case CompileFragmentShader ext (GenPixelShader gen (GetUidData uid)) of
        None \<Rightarrow> VK_NULL_HANDLE
      | Some spv \<Rightarrow> CreateShaderModule ext spv)"

text \<open>The invariant of the compile logs of the geometry and uber caches.\<close>

definition plain_compiled_once :: "('dg, 'uv, 'up) plain_caches_state \<Rightarrow> bool" where
  "plain_compiled_once st \<longleftrightarrow>
     distinct (CompileGeometryShader_calls st) \<and>
     (\<forall>uid \<in> set (CompileGeometryShader_calls st). resolved (gs_shader_map st uid)) \<and>
     distinct (CompileVertexUberShader_calls st) \<and>
     (\<forall>uid \<in> set (CompileVertexUberShader_calls st). resolved (vus_shader_map st uid)) \<and>
     distinct (CompilePixelUberShader_calls st) \<and>
     (\<forall>uid \<in> set (CompilePixelUberShader_calls st). resolved (pus_shader_map st uid))"

subsection \<open>Teardown and reload of the shader caches\<close>

text \<open>
  \<^verbatim>\<open>DestroyShaderUsageCache(cache)\<close>: the disk cache is synced and closed (its records
  stay in the file), every module is destroyed, and \<^verbatim>\<open>cache.shader_map.reset()\<close> drops
  the profiler. Until \<^verbatim>\<open>LoadShaderCaches\<close> sets a new profiler there is none; the model
  holds the empty profiler in its place.
\<close>

definition DestroyShaderUsageCache :: "('k, 'c) usage_shader_cache \<Rightarrow> ('k, 'c) usage_shader_cache" where
  "DestroyShaderUsageCache cache =
     cache\<lparr>shader_map := \<lparr> info_map = Map.empty, usage = (\<lambda>category. []) \<rparr>\<rparr>"

text \<open>
  \<^verbatim>\<open>ShaderCache::DestroyShaderCaches()\<close>, for the vertex and the pixel cache. The
  profilers' \<^verbatim>\<open>Persist\<close> writes the usage profile to a file of its own; the geometry
  and uber caches and the statistics are not part of the model.
\<close>

definition DestroyShaderCaches ::
  "('dv, 'dp, 'c) shader_cache_state \<Rightarrow> ('dv, 'dp, 'c) shader_cache_state" where
  "DestroyShaderCaches st =
     (let st1 = st\<lparr>m_vs_cache := DestroyShaderUsageCache (m_vs_cache st)\<rparr>;
          st2 = st1\<lparr>m_ps_cache := DestroyShaderUsageCache (m_ps_cache st1)\<rparr>
      in st2)"

text \<open>
  \<^verbatim>\<open>ShaderCache::LoadShaderCaches(forcecompile)\<close>, for the vertex and the pixel cache.
  \<open>new_vs\<close> and \<open>new_ps\<close> are the profilers that \<^verbatim>\<open>cache_type::Create\<close> returns.
  The disk cache files are the records held in \<^verbatim>\<open>disk_cache\<close>; they are replayed
  through the readers, and the shaders are compiled by usage when the configuration
  (\<^verbatim>\<open>bCompileShaderOnStartup\<close>, \<^verbatim>\<open>bDisableSpecializedShaders\<close>) or
  \<open>forcecompile\<close> asks for it. \<^verbatim>\<open>ShaderCache::Reload()\<close> runs
  \<^verbatim>\<open>DestroyShaderCaches()\<close> and then \<^verbatim>\<open>LoadShaderCaches(true)\<close>.
\<close>

definition LoadShaderCaches ::
  "('dv, 'dp) collaborators \<Rightarrow> ('dv ShaderUid, 'c) ObjectUsageProfiler \<Rightarrow>
     ('dp ShaderUid, 'c) ObjectUsageProfiler \<Rightarrow> 'c \<Rightarrow> bool \<Rightarrow> bool \<Rightarrow> bool \<Rightarrow>
     ('dv, 'dp, 'c) shader_cache_state \<Rightarrow> ('dv, 'dp, 'c) shader_cache_state" where
  "LoadShaderCaches ext new_vs new_ps gameid bCompileShaderOnStartup bDisableSpecializedShaders
       forcecompile st =
     (let st1 = st\<lparr>m_vs_cache := (m_vs_cache st)\<lparr>shader_map := new_vs\<rparr>\<rparr>;
          st2 = st1\<lparr>m_ps_cache := (m_ps_cache st1)\<lparr>shader_map := new_ps\<rparr>\<rparr>;
          (nv, vs_map) =
            OpenAndRead (Some (disk_cache (m_vs_cache st2)))
              (ShaderUsageCacheReader_Read (CreateShaderModule ext) (vs_hash_of ext))
              (shader_map (m_vs_cache st2));
          st3 = st2\<lparr>m_vs_cache := (m_vs_cache st2)\<lparr>shader_map := vs_map\<rparr>\<rparr>;
          (np, ps_map) =
            OpenAndRead (Some (disk_cache (m_ps_cache st3)))
              (ShaderUsageCacheReader_Read (CreateShaderModule ext) (ps_hash_of ext))
              (shader_map (m_ps_cache st3));
          st4 = st3\<lparr>m_ps_cache := (m_ps_cache st3)\<lparr>shader_map := ps_map\<rparr>\<rparr>
      in if (bCompileShaderOnStartup \<or> forcecompile) \<and> \<not> bDisableSpecializedShaders
         then CompileShaders ext gameid st4
         else st4)"

subsection \<open>Example inputs\<close>

text \<open>
  Collaborators for the examples: uid data and categories are numbers, the hash of the
  uid data \<open>d\<close> is \<open>d + 1\<close>, and a module is created for every non-empty code. With
  \<open>example_ext\<close> every source compiles; with \<open>failing_ext\<close> none does.
\<close>

definition example_ext :: "(nat, nat) collaborators" where
  "example_ext =
     \<lparr> GenerateVertexShaderCode = (\<lambda>d. ''void main() {}''),
       GeneratePixelShaderCode = (\<lambda>d. ''void main() {}''),
       CompileVertexShader = (\<lambda>src. Some [0x07230203, 1]),
       CompileFragmentShader = (\<lambda>src. Some [0x07230203, 2]),
       CreateShaderModule = (\<lambda>spv. if spv = [] then VK_NULL_HANDLE else 42),
       vs_hash_of = (\<lambda>d. of_nat d + 1),
       ps_hash_of = (\<lambda>d. of_nat d + 1) \<rparr>"

text \<open>A driver that creates a module from every code, the empty one included.\<close>

definition accepting_create :: "u32 list \<Rightarrow> VkShaderModule" where
  "accepting_create spv = 42"

definition failing_ext :: "(nat, nat) collaborators" where
  "failing_ext =
     example_ext\<lparr> CompileVertexShader := (\<lambda>src. None), CompileFragmentShader := (\<lambda>src. None) \<rparr>"

definition empty_profiler :: "(nat ShaderUid, nat) ObjectUsageProfiler" where
  "empty_profiler = \<lparr> info_map = Map.empty, usage = (\<lambda>category. []) \<rparr>"

definition fresh_state :: "(nat, nat, nat) shader_cache_state" where
  "fresh_state =
     \<lparr> m_vs_cache = \<lparr> shader_map = empty_profiler, disk_cache = [] \<rparr>,
       m_ps_cache = \<lparr> shader_map = empty_profiler, disk_cache = [] \<rparr>,
       CompileVertexShader_calls = [],
       CompileFragmentShader_calls = [],
       Host_UpdateProgressDialog_calls = [] \<rparr>"

text \<open>
  Further collaborators for the examples, with a geometry compiler that rejects every
  source, and the state with empty geometry and uber caches.
\<close>

definition example_gen :: "(nat, nat, nat) more_collaborators" where
  "example_gen =
     \<lparr> GenerateGeometryShaderCode = (\<lambda>d. ''void main() {}''),
       GenVertexShader = (\<lambda>d. ''void main() {}''),
       GenPixelShader = (\<lambda>d. ''void main() {}''),
       CompileGeometryShader = (\<lambda>src. None) \<rparr>"

definition fresh_plain_state :: "(nat, nat, nat) plain_caches_state" where
  "fresh_plain_state =
     \<lparr> gs_shader_map = Map.empty, gs_disk_cache = [],
       vus_shader_map = Map.empty, vus_disk_cache = [],
       pus_shader_map = Map.empty, pus_disk_cache = [],
       CompileGeometryShader_calls = [],
       CompileVertexUberShader_calls = [],
       CompilePixelUberShader_calls = [] \<rparr>"

text \<open>Uids with their hash as \<open>example_ext\<close> computes it, and one with a stale hash.\<close>

definition uid_A :: "nat ShaderUid" where
  "uid_A = \<lparr> GetUidData = 10, HASH = 11 \<rparr>"

definition uid_B :: "nat ShaderUid" where
  "uid_B = \<lparr> GetUidData = 20, HASH = 21 \<rparr>"

definition uid_C :: "nat ShaderUid" where
  "uid_C = \<lparr> GetUidData = 30, HASH = 31 \<rparr>"

definition stale_uid :: "nat ShaderUid" where
  "stale_uid = \<lparr> GetUidData = 10, HASH = 7 \<rparr>"

text \<open>
  The usage example of the spec: in category 1 the counts are A: 5, B: 1, C: 3, and the
  entry of B is already compiled.
\<close>

definition usage_state :: "(nat, nat, nat) shader_cache_state" where
  "usage_state =
     fresh_state\<lparr> m_vs_cache :=
       \<lparr> shader_map =
           \<lparr> info_map = [uid_B \<mapsto> \<lparr> initialized = True, compiled = True, module = 42 \<rparr>],
             usage = (\<lambda>category. if category = 1 then [(uid_A, 5), (uid_B, 1), (uid_C, 3)] else []) \<rparr>,
         disk_cache = [] \<rparr> \<rparr>"

text \<open>A device, a pipeline cache blob made by it, and a blob of another vendor.\<close>

definition example_props :: VkPhysicalDeviceProperties where
  "example_props =
     \<lparr> vendorID = 0x10DE, deviceID = 0x1B80,
       pipelineCacheUUID = [1,2,3,4,5,6,7,8,9,10,11,12,13,14,15,16] \<rparr>"

definition example_blob :: "u8 list" where
  "example_blob =
     [32,0,0,0, 1,0,0,0, 0xDE,0x10,0,0, 0x80,0x1B,0,0,
      1,2,3,4,5,6,7,8,9,10,11,12,13,14,15,16, 0xAA, 0xBB]"

definition foreign_blob :: "u8 list" where
  "foreign_blob =
     [32,0,0,0, 1,0,0,0, 0x02,0x10,0,0, 0x80,0x1B,0,0,
      1,2,3,4,5,6,7,8,9,10,11,12,13,14,15,16, 0xAA, 0xBB]"

text \<open>
  A driver that rejects every seeded pipeline cache and creates an empty one, and a
  state whose pipeline cache file holds one record.
\<close>

definition seed_rejecting_driver :: vkCreatePipelineCache_fn where
  "seed_rejecting_driver calls initial_data =
     (if initial_data = [] then (VK_SUCCESS, 99) else (VK_ERROR (-3), 0))"

definition pipeline_cache_file_state :: "u8 list \<Rightarrow> pipeline_cache_state" where
  "pipeline_cache_file_state blob =
     \<lparr> files = [''pipeline.cache'' \<mapsto> [(1, blob)]],
       m_pipeline_cache = VK_NULL_HANDLE,
       m_pipeline_cache_filename = ''pipeline.cache'',
       vkCreatePipelineCache_calls = [] \<rparr>"

text \<open>
  A pipeline key, a driver that cannot create its pipeline but creates every other one,
  and the state with no pipeline objects.
\<close>

definition example_info :: PipelineInfo where
  "example_info =
     \<lparr> vertex_format = 0, pipeline_layout = 1, vs = 42, gs = 0, ps = 43, render_pass = 2,
       blend_state = 0, rasterization_state = 0, depth_state = 0, multisampling_state = 1 \<rparr>"

definition example_pipeline_driver :: vkCreateGraphicsPipelines_fn where
  "example_pipeline_driver calls info =
     (if info = example_info then (VK_ERROR (-1), 0) else (VK_SUCCESS, 77))"

definition no_pipelines :: pipeline_objects_state where
  "no_pipelines = \<lparr> m_pipeline_objects = Map.empty, vkCreateGraphicsPipelines_calls = [] \<rparr>"

section \<open>Validation of the pipeline cache blob\<close>

lemma sizeof_header_32: "sizeof_VK_PIPELINE_CACHE_HEADER = 32"
  by (simp add: sizeof_VK_PIPELINE_CACHE_HEADER_def VK_UUID_SIZE_def)

lemma uuid_memcpy_header_length:
  "32 \<le> length data \<Longrightarrow> length (uuid (memcpy_header data)) = VK_UUID_SIZE"
  by (simp add: memcpy_header_def VK_UUID_SIZE_def)

text \<open>
  C2. For a device whose \<^verbatim>\<open>pipelineCacheUUID\<close> has its \<^verbatim>\<open>VK_UUID_SIZE\<close> bytes,
  \<^verbatim>\<open>ValidatePipelineCache\<close> returns true if and only if the blob is at least as long
  as the header, the header's \<^verbatim>\<open>header_length\<close> is at least the header size, its
  version is \<^verbatim>\<open>VK_PIPELINE_CACHE_HEADER_VERSION_ONE\<close>, and its vendor id, device id
  and UUID are equal to the device's.
\<close>

theorem ValidatePipelineCache_iff:
  assumes "length (pipelineCacheUUID props) = VK_UUID_SIZE"
  shows "ValidatePipelineCache props data \<longleftrightarrow>
           sizeof_VK_PIPELINE_CACHE_HEADER \<le> length data \<and>
           sizeof_VK_PIPELINE_CACHE_HEADER \<le> unat (header_length (memcpy_header data)) \<and>
           header_version (memcpy_header data) = VK_PIPELINE_CACHE_HEADER_VERSION_ONE \<and>
           vendor_id (memcpy_header data) = vendorID props \<and>
           device_id (memcpy_header data) = deviceID props \<and>
           uuid (memcpy_header data) = pipelineCacheUUID props"
proof (cases "length data < sizeof_VK_PIPELINE_CACHE_HEADER")
  case True
  then show ?thesis
    by (simp add: ValidatePipelineCache_def)
next
  case False
  then have len: "32 \<le> length data"
    by (simp add: sizeof_header_32)
  have "take VK_UUID_SIZE (uuid (memcpy_header data)) = uuid (memcpy_header data)"
    using uuid_memcpy_header_length [OF len] by simp
  moreover have "take VK_UUID_SIZE (pipelineCacheUUID props) = pipelineCacheUUID props"
    using assms by simp
  ultimately have "memcmp_ne (uuid (memcpy_header data)) (pipelineCacheUUID props) VK_UUID_SIZE
      \<longleftrightarrow> uuid (memcpy_header data) \<noteq> pipelineCacheUUID props"
    by (simp add: memcmp_ne_def)
  with False show ?thesis
    by (auto simp add: ValidatePipelineCache_def Let_def)
qed

theorem ValidatePipelineCache_iff_witness:
  "length (pipelineCacheUUID \<lparr> vendorID = 0x10DE, deviceID = 0x1B80,
      pipelineCacheUUID = [1,2,3,4,5,6,7,8,9,10,11,12,13,14,15,16] \<rparr>) = VK_UUID_SIZE \<and>
   ValidatePipelineCache
     \<lparr> vendorID = 0x10DE, deviceID = 0x1B80,
       pipelineCacheUUID = [1,2,3,4,5,6,7,8,9,10,11,12,13,14,15,16] \<rparr>
     [32,0,0,0, 1,0,0,0, 0xDE,0x10,0,0, 0x80,0x1B,0,0,
      1,2,3,4,5,6,7,8,9,10,11,12,13,14,15,16, 0xAA, 0xBB]"
proof -
  have h: "length (pipelineCacheUUID \<lparr> vendorID = 0x10DE, deviceID = 0x1B80,
      pipelineCacheUUID = [1,2,3,4,5,6,7,8,9,10,11,12,13,14,15,16] \<rparr>) = VK_UUID_SIZE"
    by (simp add: VK_UUID_SIZE_def)
  show ?thesis
    using h ValidatePipelineCache_iff [OF h, of "[32,0,0,0, 1,0,0,0, 0xDE,0x10,0,0,
      0x80,0x1B,0,0, 1,2,3,4,5,6,7,8,9,10,11,12,13,14,15,16, 0xAA, 0xBB]"]
    by (simp add: sizeof_header_32 memcpy_header_def load_u32_def VK_UUID_SIZE_def
        VK_PIPELINE_CACHE_HEADER_VERSION_ONE_def)
qed

section \<open>Creating and saving the pipeline cache\<close>

lemma OpenAndRead_single_record:
  "OpenAndRead (Some [(key, blob)]) PipelineCacheReadCallback_Read d = (1, blob)"
  by (simp add: OpenAndRead_def PipelineCacheReadCallback_Read_def)

lemma ValidatePipelineCache_example_blob: "ValidatePipelineCache example_props example_blob"
  by (simp add: ValidatePipelineCache_def example_props_def example_blob_def sizeof_header_32
      memcpy_header_def load_u32_def VK_UUID_SIZE_def memcmp_ne_def
      VK_PIPELINE_CACHE_HEADER_VERSION_ONE_def)

lemma ValidatePipelineCache_foreign_blob: "\<not> ValidatePipelineCache example_props foreign_blob"
  by (simp add: ValidatePipelineCache_def example_props_def foreign_blob_def sizeof_header_32
      memcpy_header_def load_u32_def VK_UUID_SIZE_def memcmp_ne_def
      VK_PIPELINE_CACHE_HEADER_VERSION_ONE_def)

text \<open>
  C8. When the pipeline cache file holds one record with a non-empty blob that passes
  validation, \<^verbatim>\<open>CreatePipelineCache(true)\<close> first calls \<^verbatim>\<open>vkCreatePipelineCache\<close> with
  the blob as initial data. If that call succeeds it is the only call and the result is
  true. If it fails there is exactly one more call, with empty initial data, and the
  result is the success of that call. So the result is false only when both calls fail.
\<close>

theorem CreatePipelineCache_seeded_retry:
  assumes "files st filename = Some [(key, blob)]" and "blob \<noteq> []"
    and "ValidatePipelineCache props blob"
  shows "(fst (drv (vkCreatePipelineCache_calls st) blob) = VK_SUCCESS \<longrightarrow>
            fst (CreatePipelineCache props drv filename True st) \<and>
            vkCreatePipelineCache_calls (snd (CreatePipelineCache props drv filename True st)) =
              vkCreatePipelineCache_calls st @ [blob]) \<and>
         (fst (drv (vkCreatePipelineCache_calls st) blob) \<noteq> VK_SUCCESS \<longrightarrow>
            vkCreatePipelineCache_calls (snd (CreatePipelineCache props drv filename True st)) =
              vkCreatePipelineCache_calls st @ [blob, []] \<and>
            (fst (CreatePipelineCache props drv filename True st) \<longleftrightarrow>
               fst (drv (vkCreatePipelineCache_calls st @ [blob]) []) = VK_SUCCESS)) \<and>
         (\<not> fst (CreatePipelineCache props drv filename True st) \<longleftrightarrow>
            fst (drv (vkCreatePipelineCache_calls st) blob) \<noteq> VK_SUCCESS \<and>
            fst (drv (vkCreatePipelineCache_calls st @ [blob]) []) \<noteq> VK_SUCCESS)"
  using assms
  by (auto simp add: CreatePipelineCache_def Let_def OpenAndRead_single_record
      call_vkCreatePipelineCache_def split: prod.splits)

theorem CreatePipelineCache_seeded_retry_witness:
  "files (pipeline_cache_file_state example_blob) ''pipeline.cache'' = Some [(1, example_blob)] \<and>
   example_blob \<noteq> [] \<and>
   ValidatePipelineCache example_props example_blob \<and>
   fst (seed_rejecting_driver [] example_blob) \<noteq> VK_SUCCESS \<and>
   fst (CreatePipelineCache example_props seed_rejecting_driver ''pipeline.cache'' True
          (pipeline_cache_file_state example_blob)) \<and>
   vkCreatePipelineCache_calls
     (snd (CreatePipelineCache example_props seed_rejecting_driver ''pipeline.cache'' True
             (pipeline_cache_file_state example_blob))) = [example_blob, []]"
proof -
  have file_rec: "files (pipeline_cache_file_state example_blob) ''pipeline.cache'' =
      Some [(1, example_blob)]"
    by (simp add: pipeline_cache_file_state_def)
  have nonempty: "example_blob \<noteq> []"
    by (simp add: example_blob_def)
  have calls: "vkCreatePipelineCache_calls (pipeline_cache_file_state example_blob) = []"
    by (simp add: pipeline_cache_file_state_def)
  show ?thesis
    using CreatePipelineCache_seeded_retry
      [OF file_rec nonempty ValidatePipelineCache_example_blob, of seed_rejecting_driver]
      file_rec nonempty ValidatePipelineCache_example_blob
    by (simp add: calls seed_rejecting_driver_def)
qed

text \<open>
  C9, as the code has it. When the pipeline cache file holds one record whose blob fails
  validation and the blob is not empty, \<^verbatim>\<open>CreatePipelineCache(true)\<close> deletes the
  file and leaves the others alone, and the blob is never passed to the driver. An empty
  blob is not validated (the guard \<^verbatim>\<open>!disk_data.empty()\<close>) and its file stays. In
  both cases every \<^verbatim>\<open>vkCreatePipelineCache\<close> call (one, or two when the first fails)
  has empty initial data.
\<close>

theorem CreatePipelineCache_invalid_blob_discarded:
  assumes "files st filename = Some [(key, blob)]"
    and "\<not> ValidatePipelineCache props blob"
  shows "(blob \<noteq> [] \<longrightarrow>
            files (snd (CreatePipelineCache props drv filename True st)) =
              (files st)(filename := None) \<and>
            blob \<notin> set (drop (length (vkCreatePipelineCache_calls st))
              (vkCreatePipelineCache_calls (snd (CreatePipelineCache props drv filename True st))))) \<and>
         (blob = [] \<longrightarrow>
            files (snd (CreatePipelineCache props drv filename True st)) = files st) \<and>
         vkCreatePipelineCache_calls (snd (CreatePipelineCache props drv filename True st)) =
           vkCreatePipelineCache_calls st @
             (if fst (drv (vkCreatePipelineCache_calls st) []) = VK_SUCCESS then [[]] else [[], []])"
  using assms
  by (auto simp add: CreatePipelineCache_def Let_def OpenAndRead_single_record File_Delete_def
      call_vkCreatePipelineCache_def split: prod.splits)

theorem CreatePipelineCache_invalid_blob_discarded_witness:
  "files (pipeline_cache_file_state foreign_blob) ''pipeline.cache'' = Some [(1, foreign_blob)] \<and>
   foreign_blob \<noteq> [] \<and>
   \<not> ValidatePipelineCache example_props foreign_blob \<and>
   files (snd (CreatePipelineCache example_props seed_rejecting_driver ''pipeline.cache'' True
                 (pipeline_cache_file_state foreign_blob))) ''pipeline.cache'' = None \<and>
   vkCreatePipelineCache_calls
     (snd (CreatePipelineCache example_props seed_rejecting_driver ''pipeline.cache'' True
             (pipeline_cache_file_state foreign_blob))) = [[]]"
proof -
  have file_rec: "files (pipeline_cache_file_state foreign_blob) ''pipeline.cache'' =
      Some [(1, foreign_blob)]"
    by (simp add: pipeline_cache_file_state_def)
  have nonempty: "foreign_blob \<noteq> []"
    by (simp add: foreign_blob_def)
  have calls: "vkCreatePipelineCache_calls (pipeline_cache_file_state foreign_blob) = []"
    by (simp add: pipeline_cache_file_state_def)
  show ?thesis
    using CreatePipelineCache_invalid_blob_discarded
      [OF file_rec ValidatePipelineCache_foreign_blob, of seed_rejecting_driver]
      file_rec nonempty ValidatePipelineCache_foreign_blob
    by (simp add: calls seed_rejecting_driver_def)
qed

text \<open>
  The claim C9 speaks of every blob that fails validation. A file whose one record has
  a zero-length blob (as \<^verbatim>\<open>SavePipelineCache\<close> writes when the driver reports the
  size 0) holds a blob that fails validation, and the file is still there after
  \<^verbatim>\<open>CreatePipelineCache(true)\<close>.
\<close>

theorem empty_blob_file_kept:
  "\<not> ValidatePipelineCache example_props [] \<and>
   files (pipeline_cache_file_state []) ''pipeline.cache'' = Some [(1, [])] \<and>
   files (snd (CreatePipelineCache example_props seed_rejecting_driver ''pipeline.cache'' True
                 (pipeline_cache_file_state []))) ''pipeline.cache'' = Some [(1, [])]"
  by (simp add: ValidatePipelineCache_def sizeof_header_32 CreatePipelineCache_def Let_def
      OpenAndRead_single_record pipeline_cache_file_state_def call_vkCreatePipelineCache_def
      seed_rejecting_driver_def)

text \<open>
  C10. If either \<^verbatim>\<open>vkGetPipelineCacheData\<close> call of \<^verbatim>\<open>SavePipelineCache\<close> fails, the
  state is returned as it was: no file is deleted or written. So a change of the files
  means that both calls succeeded, and then the pipeline cache file is replaced by a
  file with the single record of key 1 that holds the data read back.
\<close>

theorem SavePipelineCache_readback:
  "(fst get_size \<noteq> VK_SUCCESS \<or> fst (get_data (snd get_size)) \<noteq> VK_SUCCESS \<longrightarrow>
      SavePipelineCache get_size get_data st = st) \<and>
   (files (SavePipelineCache get_size get_data st) \<noteq> files st \<longrightarrow>
      fst get_size = VK_SUCCESS \<and> fst (get_data (snd get_size)) = VK_SUCCESS) \<and>
   (fst get_size = VK_SUCCESS \<and> fst (get_data (snd get_size)) = VK_SUCCESS \<longrightarrow>
      (let data = take (snd get_size) (snd (get_data (snd get_size)) @ replicate (snd get_size) 0)
       in files (SavePipelineCache get_size get_data st) =
            (files st)(m_pipeline_cache_filename st \<mapsto> [(1, take (unat (size_u32 data)) data)])))"
  by (auto simp add: SavePipelineCache_def Let_def File_Delete_def Append_def OpenAndRead_def
      split: prod.splits)

theorem SavePipelineCache_readback_witness:
  "fst (VK_SUCCESS, 2 :: nat) = VK_SUCCESS \<and>
   fst (VK_ERROR (-4), [] :: u8 list) \<noteq> VK_SUCCESS \<and>
   SavePipelineCache (VK_SUCCESS, 2) (\<lambda>n. (VK_ERROR (-4), []))
     (pipeline_cache_file_state example_blob) = pipeline_cache_file_state example_blob \<and>
   files (SavePipelineCache (VK_SUCCESS, 2) (\<lambda>n. (VK_SUCCESS, [7, 8]))
            (pipeline_cache_file_state example_blob)) ''pipeline.cache'' = Some [(1, [7, 8])]"
proof -
  have name: "m_pipeline_cache_filename (pipeline_cache_file_state example_blob) =
      ''pipeline.cache''"
    by (simp add: pipeline_cache_file_state_def)
  show ?thesis
    using SavePipelineCache_readback
        [of "(VK_SUCCESS, 2)" "\<lambda>n. (VK_ERROR (-4), [])" "pipeline_cache_file_state example_blob"]
      SavePipelineCache_readback
        [of "(VK_SUCCESS, 2)" "\<lambda>n. (VK_SUCCESS, [7, 8])" "pipeline_cache_file_state example_blob"]
    by (simp add: name size_u32_def Let_def)
qed

section \<open>Pipeline objects\<close>

text \<open>
  C7. When no pipeline is stored for a key and the driver fails to create one,
  \<^verbatim>\<open>GetPipelineWithCacheResult\<close> and \<^verbatim>\<open>GetPipeline\<close> return \<^verbatim>\<open>VK_NULL_HANDLE\<close>
  after one call of the driver. A further lookup of the same key returns the stored null
  handle and leaves the state, the log of driver calls included, as it is. For every
  other key the stored pipeline is what it was, and if none was stored, its lookup calls
  the driver for that key and returns what that call gives.
\<close>

theorem GetPipeline_failure_remembered:
  assumes "m_pipeline_objects st info = None"
    and "fst (drv (vkCreateGraphicsPipelines_calls st) info) \<noteq> VK_SUCCESS"
  shows "let st' = snd (GetPipelineWithCacheResult drv info st) in
           GetPipelineWithCacheResult drv info st = ((VK_NULL_HANDLE, False), st') \<and>
           GetPipeline drv info st = (VK_NULL_HANDLE, st') \<and>
           vkCreateGraphicsPipelines_calls st' = vkCreateGraphicsPipelines_calls st @ [info] \<and>
           GetPipelineWithCacheResult drv info st' = ((VK_NULL_HANDLE, True), st') \<and>
           GetPipeline drv info st' = (VK_NULL_HANDLE, st') \<and>
           (\<forall>info'. info' \<noteq> info \<longrightarrow>
              m_pipeline_objects st' info' = m_pipeline_objects st info' \<and>
              (m_pipeline_objects st info' = None \<longrightarrow>
                 vkCreateGraphicsPipelines_calls (snd (GetPipelineWithCacheResult drv info' st')) =
                   vkCreateGraphicsPipelines_calls st' @ [info'] \<and>
                 fst (fst (GetPipelineWithCacheResult drv info' st')) =
                   (if fst (drv (vkCreateGraphicsPipelines_calls st') info') \<noteq> VK_SUCCESS
                    then VK_NULL_HANDLE
                    else snd (drv (vkCreateGraphicsPipelines_calls st') info'))))"
  using assms
  by (auto simp add: GetPipelineWithCacheResult_def GetPipeline_def CreatePipeline_def Let_def
      split: prod.splits)

theorem GetPipeline_failure_remembered_witness:
  "m_pipeline_objects no_pipelines example_info = None \<and>
   fst (example_pipeline_driver (vkCreateGraphicsPipelines_calls no_pipelines) example_info)
     \<noteq> VK_SUCCESS \<and>
   GetPipeline example_pipeline_driver example_info no_pipelines =
     (VK_NULL_HANDLE, snd (GetPipelineWithCacheResult example_pipeline_driver example_info no_pipelines)) \<and>
   GetPipeline example_pipeline_driver example_info
     (snd (GetPipelineWithCacheResult example_pipeline_driver example_info no_pipelines)) =
     (VK_NULL_HANDLE, snd (GetPipelineWithCacheResult example_pipeline_driver example_info no_pipelines)) \<and>
   fst (fst (GetPipelineWithCacheResult example_pipeline_driver (example_info\<lparr>blend_state := 1\<rparr>)
     (snd (GetPipelineWithCacheResult example_pipeline_driver example_info no_pipelines)))) = 77"
proof -
  have absent: "m_pipeline_objects no_pipelines example_info = None"
    by (simp add: no_pipelines_def)
  have fails: "fst (example_pipeline_driver (vkCreateGraphicsPipelines_calls no_pipelines)
      example_info) \<noteq> VK_SUCCESS"
    by (simp add: example_pipeline_driver_def)
  have other: "example_info\<lparr>blend_state := 1\<rparr> \<noteq> example_info"
    by (simp add: example_info_def)
  have absent': "m_pipeline_objects no_pipelines (example_info\<lparr>blend_state := 1\<rparr>) = None"
    by (simp add: no_pipelines_def)
  show ?thesis
    using GetPipeline_failure_remembered
        [of no_pipelines example_info example_pipeline_driver, OF absent fails]
      absent fails other absent'
    by (simp add: Let_def example_pipeline_driver_def)
qed

section \<open>Shader lookups\<close>

lemmas vertex_lookup_defs =
  GetVertexShaderForUid_def vs_GetOrAdd_def GetOrAdd_def map_index_def test_and_set_def
  vs_store_def store_item_def CompileVertexShaderForUid_def Let_def new_vkShaderItem_def
  vs_entry_def resolved_def vertex_module_def Append_def

lemmas pixel_lookup_defs =
  GetPixelShaderForUid_def ps_GetOrAdd_def GetOrAdd_def map_index_def test_and_set_def
  ps_store_def store_item_def CompilePixelShaderForUid_def Let_def new_vkShaderItem_def
  ps_entry_def resolved_def pixel_module_def Append_def

lemma GetVertexShaderForUid_resolved:
  assumes "vs_entry st uid = Some it" and "initialized it"
  shows "GetVertexShaderForUid ext uid st = (module it, st)"
  using assms
  by (simp add: GetVertexShaderForUid_def vs_GetOrAdd_def GetOrAdd_def map_index_def
      test_and_set_def vs_store_def store_item_def vs_entry_def map_upd_triv)

lemma GetVertexShaderForUid_unresolved_calls:
  assumes "\<not> resolved (vs_entry st uid)"
  shows "CompileVertexShader_calls (snd (GetVertexShaderForUid ext uid st)) =
           CompileVertexShader_calls st @ [uid]"
  using assms by (auto simp add: vertex_lookup_defs split: option.splits prod.splits)

lemma GetVertexShaderForUid_unresolved_entry:
  assumes "\<not> resolved (vs_entry st uid)"
  shows "vs_entry (snd (GetVertexShaderForUid ext uid st)) =
           (vs_entry st)(uid \<mapsto> \<lparr> initialized = True, compiled = True,
                                  module = vertex_module ext uid \<rparr>)"
  using assms by (auto simp add: vertex_lookup_defs split: option.splits prod.splits)

lemma GetVertexShaderForUid_unresolved_module:
  assumes "\<not> resolved (vs_entry st uid)"
  shows "fst (GetVertexShaderForUid ext uid st) = vertex_module ext uid"
  using assms by (auto simp add: vertex_lookup_defs split: option.splits prod.splits)

lemma GetVertexShaderForUid_unresolved_disk:
  assumes "\<not> resolved (vs_entry st uid)"
  shows "disk_cache (m_vs_cache (snd (GetVertexShaderForUid ext uid st))) =
           (case CompileVertexShader ext (GenerateVertexShaderCode ext (GetUidData uid)) of
              None \<Rightarrow> disk_cache (m_vs_cache st)
            | Some spv \<Rightarrow>
                if CreateShaderModule ext spv \<noteq> VK_NULL_HANDLE
                then disk_cache (m_vs_cache st) @ [(uid, take (unat (size_u32 spv)) spv)]
                else disk_cache (m_vs_cache st))"
  using assms by (auto simp add: vertex_lookup_defs split: option.splits prod.splits)

lemma GetVertexShaderForUid_frame:
  "m_ps_cache (snd (GetVertexShaderForUid ext uid st)) = m_ps_cache st"
  "CompileFragmentShader_calls (snd (GetVertexShaderForUid ext uid st)) =
     CompileFragmentShader_calls st"
  by (auto simp add: vertex_lookup_defs split: option.splits prod.splits)

lemma GetPixelShaderForUid_resolved:
  assumes "ps_entry st uid = Some it" and "initialized it"
  shows "GetPixelShaderForUid ext uid st = (module it, st)"
  using assms
  by (simp add: GetPixelShaderForUid_def ps_GetOrAdd_def GetOrAdd_def map_index_def
      test_and_set_def ps_store_def store_item_def ps_entry_def map_upd_triv)

lemma GetPixelShaderForUid_unresolved_calls:
  assumes "\<not> resolved (ps_entry st uid)"
  shows "CompileFragmentShader_calls (snd (GetPixelShaderForUid ext uid st)) =
           CompileFragmentShader_calls st @ [uid]"
  using assms by (auto simp add: pixel_lookup_defs split: option.splits prod.splits)

lemma GetPixelShaderForUid_unresolved_entry:
  assumes "\<not> resolved (ps_entry st uid)"
  shows "ps_entry (snd (GetPixelShaderForUid ext uid st)) =
           (ps_entry st)(uid \<mapsto> \<lparr> initialized = True, compiled = True,
                                  module = pixel_module ext uid \<rparr>)"
  using assms by (auto simp add: pixel_lookup_defs split: option.splits prod.splits)

lemma GetPixelShaderForUid_unresolved_module:
  assumes "\<not> resolved (ps_entry st uid)"
  shows "fst (GetPixelShaderForUid ext uid st) = pixel_module ext uid"
  using assms by (auto simp add: pixel_lookup_defs split: option.splits prod.splits)

lemma GetPixelShaderForUid_unresolved_disk:
  assumes "\<not> resolved (ps_entry st uid)"
  shows "disk_cache (m_ps_cache (snd (GetPixelShaderForUid ext uid st))) =
           (case CompileFragmentShader ext (GeneratePixelShaderCode ext (GetUidData uid)) of
              None \<Rightarrow> disk_cache (m_ps_cache st)
            | Some spv \<Rightarrow>
                if CreateShaderModule ext spv \<noteq> VK_NULL_HANDLE
                then disk_cache (m_ps_cache st) @ [(uid, take (unat (size_u32 spv)) spv)]
                else disk_cache (m_ps_cache st))"
  using assms by (auto simp add: pixel_lookup_defs split: option.splits prod.splits)

lemma GetPixelShaderForUid_frame:
  "m_vs_cache (snd (GetPixelShaderForUid ext uid st)) = m_vs_cache st"
  "CompileVertexShader_calls (snd (GetPixelShaderForUid ext uid st)) =
     CompileVertexShader_calls st"
  by (auto simp add: pixel_lookup_defs split: option.splits prod.splits)

text \<open>A lookup leaves the entry of its key resolved.\<close>

lemma GetVertexShaderForUid_resolves:
  "resolved (vs_entry (snd (GetVertexShaderForUid ext uid st)) uid)"
proof (cases "resolved (vs_entry st uid)")
  case True
  then obtain it where "vs_entry st uid = Some it" "initialized it"
    by (auto simp add: resolved_def split: option.splits)
  with True show ?thesis
    by (simp add: GetVertexShaderForUid_resolved)
next
  case False
  then show ?thesis
    by (simp add: GetVertexShaderForUid_unresolved_entry) (simp add: resolved_def)
qed

lemma GetPixelShaderForUid_resolves:
  "resolved (ps_entry (snd (GetPixelShaderForUid ext uid st)) uid)"
proof (cases "resolved (ps_entry st uid)")
  case True
  then obtain it where "ps_entry st uid = Some it" "initialized it"
    by (auto simp add: resolved_def split: option.splits)
  with True show ?thesis
    by (simp add: GetPixelShaderForUid_resolved)
next
  case False
  then show ?thesis
    by (simp add: GetPixelShaderForUid_unresolved_entry) (simp add: resolved_def)
qed

text \<open>
  The invariant of the compile logs: no uid was compiled twice, and every uid that was
  compiled has a resolved entry.
\<close>

lemma compiled_once_vertex_lookup:
  assumes "compiled_once st"
  shows "compiled_once (snd (GetVertexShaderForUid ext uid st))"
proof (cases "resolved (vs_entry st uid)")
  case True
  then obtain it where "vs_entry st uid = Some it" "initialized it"
    by (auto simp add: resolved_def split: option.splits)
  with assms show ?thesis
    by (simp add: GetVertexShaderForUid_resolved)
next
  case False
  let ?st' = "snd (GetVertexShaderForUid ext uid st)"
  have fresh: "uid \<notin> set (CompileVertexShader_calls st)"
    using assms False by (auto simp add: compiled_once_def)
  have calls: "CompileVertexShader_calls ?st' = CompileVertexShader_calls st @ [uid]"
    using False by (rule GetVertexShaderForUid_unresolved_calls)
  have entry: "vs_entry ?st' = (vs_entry st)(uid \<mapsto> \<lparr> initialized = True, compiled = True,
      module = vertex_module ext uid \<rparr>)"
    using False by (rule GetVertexShaderForUid_unresolved_entry)
  have ps: "ps_entry ?st' = ps_entry st"
    by (rule ext) (simp add: ps_entry_def GetVertexShaderForUid_frame)
  have "distinct (CompileVertexShader_calls ?st')"
    using assms fresh calls by (simp add: compiled_once_def)
  moreover have "\<forall>k \<in> set (CompileVertexShader_calls ?st'). resolved (vs_entry ?st' k)"
    using assms calls entry by (auto simp add: compiled_once_def resolved_def)
  moreover have "distinct (CompileFragmentShader_calls ?st')"
    using assms by (simp add: compiled_once_def GetVertexShaderForUid_frame)
  moreover have "\<forall>k \<in> set (CompileFragmentShader_calls ?st'). resolved (ps_entry ?st' k)"
    using assms ps by (simp add: compiled_once_def GetVertexShaderForUid_frame)
  ultimately show ?thesis
    by (simp add: compiled_once_def)
qed

lemma compiled_once_pixel_lookup:
  assumes "compiled_once st"
  shows "compiled_once (snd (GetPixelShaderForUid ext uid st))"
proof (cases "resolved (ps_entry st uid)")
  case True
  then obtain it where "ps_entry st uid = Some it" "initialized it"
    by (auto simp add: resolved_def split: option.splits)
  with assms show ?thesis
    by (simp add: GetPixelShaderForUid_resolved)
next
  case False
  let ?st' = "snd (GetPixelShaderForUid ext uid st)"
  have fresh: "uid \<notin> set (CompileFragmentShader_calls st)"
    using assms False by (auto simp add: compiled_once_def)
  have calls: "CompileFragmentShader_calls ?st' = CompileFragmentShader_calls st @ [uid]"
    using False by (rule GetPixelShaderForUid_unresolved_calls)
  have entry: "ps_entry ?st' = (ps_entry st)(uid \<mapsto> \<lparr> initialized = True, compiled = True,
      module = pixel_module ext uid \<rparr>)"
    using False by (rule GetPixelShaderForUid_unresolved_entry)
  have vs: "vs_entry ?st' = vs_entry st"
    by (rule ext) (simp add: vs_entry_def GetPixelShaderForUid_frame)
  have "distinct (CompileFragmentShader_calls ?st')"
    using assms fresh calls by (simp add: compiled_once_def)
  moreover have "\<forall>k \<in> set (CompileFragmentShader_calls ?st'). resolved (ps_entry ?st' k)"
    using assms calls entry by (auto simp add: compiled_once_def resolved_def)
  moreover have "distinct (CompileVertexShader_calls ?st')"
    using assms by (simp add: compiled_once_def GetPixelShaderForUid_frame)
  moreover have "\<forall>k \<in> set (CompileVertexShader_calls ?st'). resolved (vs_entry ?st' k)"
    using assms vs by (simp add: compiled_once_def GetPixelShaderForUid_frame)
  ultimately show ?thesis
    by (simp add: compiled_once_def)
qed

text \<open>A resolved entry is not touched by any later lookup.\<close>

lemma vs_entry_vertex_lookup_other:
  assumes "k \<noteq> uid"
  shows "vs_entry (snd (GetVertexShaderForUid ext uid st)) k = vs_entry st k"
proof (cases "resolved (vs_entry st uid)")
  case True
  then obtain it where "vs_entry st uid = Some it" "initialized it"
    by (auto simp add: resolved_def split: option.splits)
  then show ?thesis
    by (simp add: GetVertexShaderForUid_resolved)
next
  case False
  then show ?thesis
    using assms by (simp add: GetVertexShaderForUid_unresolved_entry)
qed

lemma ps_entry_pixel_lookup_other:
  assumes "k \<noteq> uid"
  shows "ps_entry (snd (GetPixelShaderForUid ext uid st)) k = ps_entry st k"
proof (cases "resolved (ps_entry st uid)")
  case True
  then obtain it where "ps_entry st uid = Some it" "initialized it"
    by (auto simp add: resolved_def split: option.splits)
  then show ?thesis
    by (simp add: GetPixelShaderForUid_resolved)
next
  case False
  then show ?thesis
    using assms by (simp add: GetPixelShaderForUid_unresolved_entry)
qed

lemma vs_entry_vertex_lookup_stable:
  assumes "vs_entry st k = Some it" and "initialized it"
  shows "vs_entry (snd (GetVertexShaderForUid ext uid st)) k = Some it"
proof (cases "uid = k")
  case True
  with assms show ?thesis
    by (simp add: GetVertexShaderForUid_resolved)
next
  case False
  with assms show ?thesis
    by (simp add: vs_entry_vertex_lookup_other)
qed

lemma ps_entry_pixel_lookup_stable:
  assumes "ps_entry st k = Some it" and "initialized it"
  shows "ps_entry (snd (GetPixelShaderForUid ext uid st)) k = Some it"
proof (cases "uid = k")
  case True
  with assms show ?thesis
    by (simp add: GetPixelShaderForUid_resolved)
next
  case False
  with assms show ?thesis
    by (simp add: ps_entry_pixel_lookup_other)
qed

lemma vs_entry_pixel_lookup:
  "vs_entry (snd (GetPixelShaderForUid ext uid st)) k = vs_entry st k"
  by (simp add: vs_entry_def GetPixelShaderForUid_frame)

lemma ps_entry_vertex_lookup:
  "ps_entry (snd (GetVertexShaderForUid ext uid st)) k = ps_entry st k"
  by (simp add: ps_entry_def GetVertexShaderForUid_frame)

text \<open>
  A visit of the precompilation passes is the lookup of the canonical uid, followed by
  the progress report when the lookup compiled.
\<close>

lemma CompileShaders_vertex_visit_lookup:
  "CompileShaders_vertex_visit ext uid n (shader_count, st) =
     (shader_count,
      if resolved (vs_entry st (CalculateUIDHash (vs_hash_of ext) (ClearHASH uid)))
      then snd (GetVertexShaderForUid ext (CalculateUIDHash (vs_hash_of ext) (ClearHASH uid)) st)
      else (snd (GetVertexShaderForUid ext (CalculateUIDHash (vs_hash_of ext) (ClearHASH uid)) st))
        \<lparr>Host_UpdateProgressDialog_calls :=
           Host_UpdateProgressDialog_calls
             (snd (GetVertexShaderForUid ext (CalculateUIDHash (vs_hash_of ext) (ClearHASH uid)) st)) @
           [(''Compiling Vertex shaders...'', shader_count, int n)]\<rparr>)"
  by (simp add: CompileShaders_vertex_visit_def GetVertexShaderForUid_def resolved_def
      vs_entry_def vs_GetOrAdd_def GetOrAdd_def map_index_def test_and_set_def Let_def
      new_vkShaderItem_def split: option.splits prod.splits)

lemma CompileShaders_pixel_visit_lookup:
  "CompileShaders_pixel_visit ext uid n (shader_count, st) =
     (shader_count,
      if resolved (ps_entry st (CalculateUIDHash (ps_hash_of ext) (ClearHASH uid)))
      then snd (GetPixelShaderForUid ext (CalculateUIDHash (ps_hash_of ext) (ClearHASH uid)) st)
      else (snd (GetPixelShaderForUid ext (CalculateUIDHash (ps_hash_of ext) (ClearHASH uid)) st))
        \<lparr>Host_UpdateProgressDialog_calls :=
           Host_UpdateProgressDialog_calls
             (snd (GetPixelShaderForUid ext (CalculateUIDHash (ps_hash_of ext) (ClearHASH uid)) st)) @
           [(''Compiling Pixel shaders...'', shader_count, int n)]\<rparr>)"
  by (simp add: CompileShaders_pixel_visit_def GetPixelShaderForUid_def resolved_def
      ps_entry_def ps_GetOrAdd_def GetOrAdd_def map_index_def test_and_set_def Let_def
      new_vkShaderItem_def split: option.splits prod.splits)

text \<open>
  So a property of the state that every lookup and every progress report preserves is
  preserved by \<^verbatim>\<open>CompileShaders\<close>.
\<close>

lemma foldl_vertex_visit_preserves:
  assumes "\<And>st uid. P st \<Longrightarrow> P (snd (GetVertexShaderForUid ext uid st))"
    and "\<And>st x. P st \<Longrightarrow> P (st\<lparr>Host_UpdateProgressDialog_calls := x\<rparr>)"
  shows "P (snd s) \<Longrightarrow> P (snd (foldl (\<lambda>s key. CompileShaders_vertex_visit ext key n s) s keys))"
proof (induction keys arbitrary: s)
  case Nil
  then show ?case by simp
next
  case (Cons key keys)
  obtain shader_count st where s: "s = (shader_count, st)"
    by (cases s)
  let ?st' = "snd (GetVertexShaderForUid ext (CalculateUIDHash (vs_hash_of ext) (ClearHASH key)) st)"
  have "P st"
    using Cons.prems by (simp add: s)
  then have looked_up: "P ?st'"
    by (rule assms(1))
  then have "P (?st'\<lparr>Host_UpdateProgressDialog_calls := x\<rparr>)" for x
    by (rule assms(2))
  with looked_up have "P (snd (CompileShaders_vertex_visit ext key n s))"
    by (simp only: s CompileShaders_vertex_visit_lookup snd_conv if_split) blast
  then show ?case
    using Cons.IH by simp
qed

lemma foldl_pixel_visit_preserves:
  assumes "\<And>st uid. P st \<Longrightarrow> P (snd (GetPixelShaderForUid ext uid st))"
    and "\<And>st x. P st \<Longrightarrow> P (st\<lparr>Host_UpdateProgressDialog_calls := x\<rparr>)"
  shows "P (snd s) \<Longrightarrow> P (snd (foldl (\<lambda>s key. CompileShaders_pixel_visit ext key n s) s keys))"
proof (induction keys arbitrary: s)
  case Nil
  then show ?case by simp
next
  case (Cons key keys)
  obtain shader_count st where s: "s = (shader_count, st)"
    by (cases s)
  let ?st' = "snd (GetPixelShaderForUid ext (CalculateUIDHash (ps_hash_of ext) (ClearHASH key)) st)"
  have "P st"
    using Cons.prems by (simp add: s)
  then have looked_up: "P ?st'"
    by (rule assms(1))
  then have "P (?st'\<lparr>Host_UpdateProgressDialog_calls := x\<rparr>)" for x
    by (rule assms(2))
  with looked_up have "P (snd (CompileShaders_pixel_visit ext key n s))"
    by (simp only: s CompileShaders_pixel_visit_lookup snd_conv if_split) blast
  then show ?case
    using Cons.IH by simp
qed

lemma CompileShaders_preserves:
  assumes vertex: "\<And>st uid. P st \<Longrightarrow> P (snd (GetVertexShaderForUid ext uid st))"
    and pixel: "\<And>st uid. P st \<Longrightarrow> P (snd (GetPixelShaderForUid ext uid st))"
    and report: "\<And>st x. P st \<Longrightarrow> P (st\<lparr>Host_UpdateProgressDialog_calls := x\<rparr>)"
    and "P st"
  shows "P (CompileShaders ext gameid st)"
proof -
  let ?s1 = "ForEachMostUsedByCategory (shader_map (m_vs_cache st)) gameid
      (CompileShaders_vertex_visit ext) (\<lambda>entry. \<not> compiled entry) True (0, st)"
  let ?s2 = "ForEachMostUsedByCategory (shader_map (m_ps_cache (snd ?s1))) gameid
      (CompileShaders_pixel_visit ext) (\<lambda>entry. \<not> compiled entry) True (0, snd ?s1)"
  have first: "P (snd ?s1)"
    unfolding ForEachMostUsedByCategory_def Let_def
  proof (rule foldl_vertex_visit_preserves [where P = P])
    show "P (snd (GetVertexShaderForUid ext uid st))" if "P st" for st uid
      using that by (rule vertex)
    show "P (st\<lparr>Host_UpdateProgressDialog_calls := x\<rparr>)" if "P st" for st x
      using that by (rule report)
    show "P (snd (0 :: int, st))"
      using \<open>P st\<close> by simp
  qed
  have "P (snd ?s2)"
    unfolding ForEachMostUsedByCategory_def Let_def
  proof (rule foldl_pixel_visit_preserves [where P = P])
    show "P (snd (GetPixelShaderForUid ext uid st))" if "P st" for st uid
      using that by (rule pixel)
    show "P (st\<lparr>Host_UpdateProgressDialog_calls := x\<rparr>)" if "P st" for st x
      using that by (rule report)
    show "P (snd (0 :: int, snd (foldl (\<lambda>s key. CompileShaders_vertex_visit ext key
        (length (candidates (shader_map (m_vs_cache st)) gameid (\<lambda>entry. \<not> compiled entry) True)) s)
        (0, st) (candidates (shader_map (m_vs_cache st)) gameid (\<lambda>entry. \<not> compiled entry) True))))"
      using first by (simp add: ForEachMostUsedByCategory_def Let_def)
  qed
  then have "P ((snd ?s2)\<lparr>Host_UpdateProgressDialog_calls :=
      Host_UpdateProgressDialog_calls (snd ?s2) @ [([], -1, -1)]\<rparr>)"
    by (rule report)
  then show ?thesis
    by (simp add: CompileShaders_def Let_def split_beta)
qed

lemma vs_entry_report:
  "vs_entry (st\<lparr>Host_UpdateProgressDialog_calls := x\<rparr>) k = vs_entry st k"
  by (simp add: vs_entry_def)

lemma ps_entry_report:
  "ps_entry (st\<lparr>Host_UpdateProgressDialog_calls := x\<rparr>) k = ps_entry st k"
  by (simp add: ps_entry_def)

lemma compiled_once_report:
  "compiled_once (st\<lparr>Host_UpdateProgressDialog_calls := x\<rparr>) = compiled_once st"
  by (simp add: compiled_once_def vs_entry_report ps_entry_report)

lemma compiled_once_CompileShaders:
  fixes st :: "('a, 'b, 'c) shader_cache_state"
  shows "compiled_once st \<Longrightarrow> compiled_once (CompileShaders ext gameid st)"
proof (rule CompileShaders_preserves [where P = compiled_once])
  show "compiled_once (snd (GetVertexShaderForUid ext uid st))" if "compiled_once st" for st uid
    using that by (rule compiled_once_vertex_lookup)
  show "compiled_once (snd (GetPixelShaderForUid ext uid st))" if "compiled_once st" for st uid
    using that by (rule compiled_once_pixel_lookup)
  show "compiled_once (st\<lparr>Host_UpdateProgressDialog_calls := x\<rparr>)" if "compiled_once st"
    for st :: "('a, 'b, 'c) shader_cache_state" and x
    using that by (simp only: compiled_once_report)
qed

lemma vs_entry_CompileShaders_stable:
  fixes st :: "('a, 'b, 'c) shader_cache_state"
  assumes "vs_entry st k = Some it" and "initialized it"
  shows "vs_entry (CompileShaders ext gameid st) k = Some it"
proof (rule CompileShaders_preserves [where P = "\<lambda>st. vs_entry st k = Some it"])
  show "vs_entry (snd (GetVertexShaderForUid ext uid st)) k = Some it" if "vs_entry st k = Some it" for st uid
    using that assms(2) by (rule vs_entry_vertex_lookup_stable)
  show "vs_entry (snd (GetPixelShaderForUid ext uid st)) k = Some it" if "vs_entry st k = Some it" for st uid
    using that by (simp only: vs_entry_pixel_lookup)
  show "vs_entry (st\<lparr>Host_UpdateProgressDialog_calls := x\<rparr>) k = Some it"
    if "vs_entry st k = Some it" for st :: "('a, 'b, 'c) shader_cache_state" and x
    using that by (simp only: vs_entry_report)
  show "vs_entry st k = Some it"
    by (rule assms(1))
qed

lemma ps_entry_CompileShaders_stable:
  fixes st :: "('a, 'b, 'c) shader_cache_state"
  assumes "ps_entry st k = Some it" and "initialized it"
  shows "ps_entry (CompileShaders ext gameid st) k = Some it"
proof (rule CompileShaders_preserves [where P = "\<lambda>st. ps_entry st k = Some it"])
  show "ps_entry (snd (GetPixelShaderForUid ext uid st)) k = Some it" if "ps_entry st k = Some it" for st uid
    using that assms(2) by (rule ps_entry_pixel_lookup_stable)
  show "ps_entry (snd (GetVertexShaderForUid ext uid st)) k = Some it" if "ps_entry st k = Some it" for st uid
    using that by (simp only: ps_entry_vertex_lookup)
  show "ps_entry (st\<lparr>Host_UpdateProgressDialog_calls := x\<rparr>) k = Some it"
    if "ps_entry st k = Some it" for st :: "('a, 'b, 'c) shader_cache_state" and x
    using that by (simp only: ps_entry_report)
  show "ps_entry st k = Some it"
    by (rule assms(1))
qed

text \<open>
  The lookups of the geometry and uber caches behave like the vertex and pixel lookups,
  on their own maps and logs.
\<close>

lemmas geometry_lookup_defs =
  GetGeometryShaderForUid_def CompileGeometryShaderForUid_def map_index_def test_and_set_def Let_def
  new_vkShaderItem_def resolved_def geometry_module_def Append_def

lemma GetGeometryShaderForUid_resolved:
  assumes "gs_shader_map st uid = Some it" and "initialized it"
  shows "GetGeometryShaderForUid ext gen uid st = (module it, st)"
  using assms
  by (simp add: GetGeometryShaderForUid_def map_index_def test_and_set_def map_upd_triv)

lemma GetGeometryShaderForUid_unresolved_calls:
  assumes "\<not> resolved (gs_shader_map st uid)"
  shows "CompileGeometryShader_calls (snd (GetGeometryShaderForUid ext gen uid st)) = CompileGeometryShader_calls st @ [uid]"
  using assms by (auto simp add: geometry_lookup_defs split: option.splits prod.splits)

lemma GetGeometryShaderForUid_unresolved_entry:
  assumes "\<not> resolved (gs_shader_map st uid)"
  shows "gs_shader_map (snd (GetGeometryShaderForUid ext gen uid st)) =
           (gs_shader_map st)(uid \<mapsto> \<lparr> initialized = True, compiled = True,
                                  module = geometry_module ext gen uid \<rparr>)"
  using assms by (auto simp add: geometry_lookup_defs split: option.splits prod.splits)

lemma GetGeometryShaderForUid_unresolved_module:
  assumes "\<not> resolved (gs_shader_map st uid)"
  shows "fst (GetGeometryShaderForUid ext gen uid st) = geometry_module ext gen uid"
  using assms by (auto simp add: geometry_lookup_defs split: option.splits prod.splits)

lemma GetGeometryShaderForUid_frame:
  "vus_shader_map (snd (GetGeometryShaderForUid ext gen uid st)) = vus_shader_map st"
  "pus_shader_map (snd (GetGeometryShaderForUid ext gen uid st)) = pus_shader_map st"
  "CompileVertexUberShader_calls (snd (GetGeometryShaderForUid ext gen uid st)) = CompileVertexUberShader_calls st"
  "CompilePixelUberShader_calls (snd (GetGeometryShaderForUid ext gen uid st)) = CompilePixelUberShader_calls st"
  by (auto simp add: geometry_lookup_defs split: option.splits prod.splits)

lemma GetGeometryShaderForUid_resolves:
  "resolved (gs_shader_map (snd (GetGeometryShaderForUid ext gen uid st)) uid)"
proof (cases "resolved (gs_shader_map st uid)")
  case True
  then obtain it where "gs_shader_map st uid = Some it" "initialized it"
    by (auto simp add: resolved_def split: option.splits)
  with True show ?thesis
    by (simp add: GetGeometryShaderForUid_resolved)
next
  case False
  then show ?thesis
    by (simp add: GetGeometryShaderForUid_unresolved_entry) (simp add: resolved_def)
qed

lemma GetGeometryShaderForUid_stable:
  assumes "gs_shader_map st k = Some it" and "initialized it"
  shows "gs_shader_map (snd (GetGeometryShaderForUid ext gen uid st)) k = Some it"
proof (cases "resolved (gs_shader_map st uid)")
  case True
  then obtain it' where "gs_shader_map st uid = Some it'" "initialized it'"
    by (auto simp add: resolved_def split: option.splits)
  with assms show ?thesis
    by (simp add: GetGeometryShaderForUid_resolved)
next
  case False
  with assms have "k \<noteq> uid"
    by (auto simp add: resolved_def)
  with assms False show ?thesis
    by (simp add: GetGeometryShaderForUid_unresolved_entry)
qed

lemma GetGeometryShaderForUid_entry_module:
  "\<exists>it. gs_shader_map (snd (GetGeometryShaderForUid ext gen uid st)) uid = Some it \<and> initialized it \<and>
        module it = fst (GetGeometryShaderForUid ext gen uid st)"
proof (cases "resolved (gs_shader_map st uid)")
  case True
  then obtain it where "gs_shader_map st uid = Some it" "initialized it"
    by (auto simp add: resolved_def split: option.splits)
  then show ?thesis
    by (simp add: GetGeometryShaderForUid_resolved)
next
  case False
  then show ?thesis
    by (simp add: GetGeometryShaderForUid_unresolved_entry GetGeometryShaderForUid_unresolved_module)
qed

lemma plain_compiled_once_geometry_lookup:
  assumes "plain_compiled_once st"
  shows "plain_compiled_once (snd (GetGeometryShaderForUid ext gen uid st))"
proof (cases "resolved (gs_shader_map st uid)")
  case True
  then obtain it where "gs_shader_map st uid = Some it" "initialized it"
    by (auto simp add: resolved_def split: option.splits)
  with assms show ?thesis
    by (simp add: GetGeometryShaderForUid_resolved)
next
  case False
  let ?st' = "snd (GetGeometryShaderForUid ext gen uid st)"
  have fresh: "uid \<notin> set (CompileGeometryShader_calls st)"
    using assms False by (auto simp add: plain_compiled_once_def)
  have calls: "CompileGeometryShader_calls ?st' = CompileGeometryShader_calls st @ [uid]"
    using False by (rule GetGeometryShaderForUid_unresolved_calls)
  have entry: "gs_shader_map ?st' = (gs_shader_map st)(uid \<mapsto> \<lparr> initialized = True, compiled = True,
      module = geometry_module ext gen uid \<rparr>)"
    using False by (rule GetGeometryShaderForUid_unresolved_entry)
  have "distinct (CompileGeometryShader_calls ?st')"
    using assms fresh calls by (simp add: plain_compiled_once_def)
  moreover have "\<forall>k \<in> set (CompileGeometryShader_calls ?st'). resolved (gs_shader_map ?st' k)"
    using assms calls entry by (auto simp add: plain_compiled_once_def resolved_def)
  ultimately show ?thesis
    using assms by (simp add: plain_compiled_once_def GetGeometryShaderForUid_frame)
qed

lemmas vertex_uber_lookup_defs =
  GetVertexUberShaderForUid_def CompileVertexUberShaderForUid_def map_index_def test_and_set_def Let_def
  new_vkShaderItem_def resolved_def vertex_uber_module_def Append_def

lemma GetVertexUberShaderForUid_resolved:
  assumes "vus_shader_map st uid = Some it" and "initialized it"
  shows "GetVertexUberShaderForUid ext gen uid st = (module it, st)"
  using assms
  by (simp add: GetVertexUberShaderForUid_def map_index_def test_and_set_def map_upd_triv)

lemma GetVertexUberShaderForUid_unresolved_calls:
  assumes "\<not> resolved (vus_shader_map st uid)"
  shows "CompileVertexUberShader_calls (snd (GetVertexUberShaderForUid ext gen uid st)) = CompileVertexUberShader_calls st @ [uid]"
  using assms by (auto simp add: vertex_uber_lookup_defs split: option.splits prod.splits)

lemma GetVertexUberShaderForUid_unresolved_entry:
  assumes "\<not> resolved (vus_shader_map st uid)"
  shows "vus_shader_map (snd (GetVertexUberShaderForUid ext gen uid st)) =
           (vus_shader_map st)(uid \<mapsto> \<lparr> initialized = True, compiled = True,
                                  module = vertex_uber_module ext gen uid \<rparr>)"
  using assms by (auto simp add: vertex_uber_lookup_defs split: option.splits prod.splits)

lemma GetVertexUberShaderForUid_unresolved_module:
  assumes "\<not> resolved (vus_shader_map st uid)"
  shows "fst (GetVertexUberShaderForUid ext gen uid st) = vertex_uber_module ext gen uid"
  using assms by (auto simp add: vertex_uber_lookup_defs split: option.splits prod.splits)

lemma GetVertexUberShaderForUid_frame:
  "gs_shader_map (snd (GetVertexUberShaderForUid ext gen uid st)) = gs_shader_map st"
  "pus_shader_map (snd (GetVertexUberShaderForUid ext gen uid st)) = pus_shader_map st"
  "CompileGeometryShader_calls (snd (GetVertexUberShaderForUid ext gen uid st)) = CompileGeometryShader_calls st"
  "CompilePixelUberShader_calls (snd (GetVertexUberShaderForUid ext gen uid st)) = CompilePixelUberShader_calls st"
  by (auto simp add: vertex_uber_lookup_defs split: option.splits prod.splits)

lemma GetVertexUberShaderForUid_resolves:
  "resolved (vus_shader_map (snd (GetVertexUberShaderForUid ext gen uid st)) uid)"
proof (cases "resolved (vus_shader_map st uid)")
  case True
  then obtain it where "vus_shader_map st uid = Some it" "initialized it"
    by (auto simp add: resolved_def split: option.splits)
  with True show ?thesis
    by (simp add: GetVertexUberShaderForUid_resolved)
next
  case False
  then show ?thesis
    by (simp add: GetVertexUberShaderForUid_unresolved_entry) (simp add: resolved_def)
qed

lemma GetVertexUberShaderForUid_stable:
  assumes "vus_shader_map st k = Some it" and "initialized it"
  shows "vus_shader_map (snd (GetVertexUberShaderForUid ext gen uid st)) k = Some it"
proof (cases "resolved (vus_shader_map st uid)")
  case True
  then obtain it' where "vus_shader_map st uid = Some it'" "initialized it'"
    by (auto simp add: resolved_def split: option.splits)
  with assms show ?thesis
    by (simp add: GetVertexUberShaderForUid_resolved)
next
  case False
  with assms have "k \<noteq> uid"
    by (auto simp add: resolved_def)
  with assms False show ?thesis
    by (simp add: GetVertexUberShaderForUid_unresolved_entry)
qed

lemma GetVertexUberShaderForUid_entry_module:
  "\<exists>it. vus_shader_map (snd (GetVertexUberShaderForUid ext gen uid st)) uid = Some it \<and> initialized it \<and>
        module it = fst (GetVertexUberShaderForUid ext gen uid st)"
proof (cases "resolved (vus_shader_map st uid)")
  case True
  then obtain it where "vus_shader_map st uid = Some it" "initialized it"
    by (auto simp add: resolved_def split: option.splits)
  then show ?thesis
    by (simp add: GetVertexUberShaderForUid_resolved)
next
  case False
  then show ?thesis
    by (simp add: GetVertexUberShaderForUid_unresolved_entry GetVertexUberShaderForUid_unresolved_module)
qed

lemma plain_compiled_once_vertex_uber_lookup:
  assumes "plain_compiled_once st"
  shows "plain_compiled_once (snd (GetVertexUberShaderForUid ext gen uid st))"
proof (cases "resolved (vus_shader_map st uid)")
  case True
  then obtain it where "vus_shader_map st uid = Some it" "initialized it"
    by (auto simp add: resolved_def split: option.splits)
  with assms show ?thesis
    by (simp add: GetVertexUberShaderForUid_resolved)
next
  case False
  let ?st' = "snd (GetVertexUberShaderForUid ext gen uid st)"
  have fresh: "uid \<notin> set (CompileVertexUberShader_calls st)"
    using assms False by (auto simp add: plain_compiled_once_def)
  have calls: "CompileVertexUberShader_calls ?st' = CompileVertexUberShader_calls st @ [uid]"
    using False by (rule GetVertexUberShaderForUid_unresolved_calls)
  have entry: "vus_shader_map ?st' = (vus_shader_map st)(uid \<mapsto> \<lparr> initialized = True, compiled = True,
      module = vertex_uber_module ext gen uid \<rparr>)"
    using False by (rule GetVertexUberShaderForUid_unresolved_entry)
  have "distinct (CompileVertexUberShader_calls ?st')"
    using assms fresh calls by (simp add: plain_compiled_once_def)
  moreover have "\<forall>k \<in> set (CompileVertexUberShader_calls ?st'). resolved (vus_shader_map ?st' k)"
    using assms calls entry by (auto simp add: plain_compiled_once_def resolved_def)
  ultimately show ?thesis
    using assms by (simp add: plain_compiled_once_def GetVertexUberShaderForUid_frame)
qed

lemmas pixel_uber_lookup_defs =
  GetPixelUberShaderForUid_def CompilePixelUberShaderForUid_def map_index_def test_and_set_def Let_def
  new_vkShaderItem_def resolved_def pixel_uber_module_def Append_def

lemma GetPixelUberShaderForUid_resolved:
  assumes "pus_shader_map st uid = Some it" and "initialized it"
  shows "GetPixelUberShaderForUid ext gen uid st = (module it, st)"
  using assms
  by (simp add: GetPixelUberShaderForUid_def map_index_def test_and_set_def map_upd_triv)

lemma GetPixelUberShaderForUid_unresolved_calls:
  assumes "\<not> resolved (pus_shader_map st uid)"
  shows "CompilePixelUberShader_calls (snd (GetPixelUberShaderForUid ext gen uid st)) = CompilePixelUberShader_calls st @ [uid]"
  using assms by (auto simp add: pixel_uber_lookup_defs split: option.splits prod.splits)

lemma GetPixelUberShaderForUid_unresolved_entry:
  assumes "\<not> resolved (pus_shader_map st uid)"
  shows "pus_shader_map (snd (GetPixelUberShaderForUid ext gen uid st)) =
           (pus_shader_map st)(uid \<mapsto> \<lparr> initialized = True, compiled = True,
                                  module = pixel_uber_module ext gen uid \<rparr>)"
  using assms by (auto simp add: pixel_uber_lookup_defs split: option.splits prod.splits)

lemma GetPixelUberShaderForUid_unresolved_module:
  assumes "\<not> resolved (pus_shader_map st uid)"
  shows "fst (GetPixelUberShaderForUid ext gen uid st) = pixel_uber_module ext gen uid"
  using assms by (auto simp add: pixel_uber_lookup_defs split: option.splits prod.splits)

lemma GetPixelUberShaderForUid_frame:
  "gs_shader_map (snd (GetPixelUberShaderForUid ext gen uid st)) = gs_shader_map st"
  "vus_shader_map (snd (GetPixelUberShaderForUid ext gen uid st)) = vus_shader_map st"
  "CompileGeometryShader_calls (snd (GetPixelUberShaderForUid ext gen uid st)) = CompileGeometryShader_calls st"
  "CompileVertexUberShader_calls (snd (GetPixelUberShaderForUid ext gen uid st)) = CompileVertexUberShader_calls st"
  by (auto simp add: pixel_uber_lookup_defs split: option.splits prod.splits)

lemma GetPixelUberShaderForUid_resolves:
  "resolved (pus_shader_map (snd (GetPixelUberShaderForUid ext gen uid st)) uid)"
proof (cases "resolved (pus_shader_map st uid)")
  case True
  then obtain it where "pus_shader_map st uid = Some it" "initialized it"
    by (auto simp add: resolved_def split: option.splits)
  with True show ?thesis
    by (simp add: GetPixelUberShaderForUid_resolved)
next
  case False
  then show ?thesis
    by (simp add: GetPixelUberShaderForUid_unresolved_entry) (simp add: resolved_def)
qed

lemma GetPixelUberShaderForUid_stable:
  assumes "pus_shader_map st k = Some it" and "initialized it"
  shows "pus_shader_map (snd (GetPixelUberShaderForUid ext gen uid st)) k = Some it"
proof (cases "resolved (pus_shader_map st uid)")
  case True
  then obtain it' where "pus_shader_map st uid = Some it'" "initialized it'"
    by (auto simp add: resolved_def split: option.splits)
  with assms show ?thesis
    by (simp add: GetPixelUberShaderForUid_resolved)
next
  case False
  with assms have "k \<noteq> uid"
    by (auto simp add: resolved_def)
  with assms False show ?thesis
    by (simp add: GetPixelUberShaderForUid_unresolved_entry)
qed

lemma GetPixelUberShaderForUid_entry_module:
  "\<exists>it. pus_shader_map (snd (GetPixelUberShaderForUid ext gen uid st)) uid = Some it \<and> initialized it \<and>
        module it = fst (GetPixelUberShaderForUid ext gen uid st)"
proof (cases "resolved (pus_shader_map st uid)")
  case True
  then obtain it where "pus_shader_map st uid = Some it" "initialized it"
    by (auto simp add: resolved_def split: option.splits)
  then show ?thesis
    by (simp add: GetPixelUberShaderForUid_resolved)
next
  case False
  then show ?thesis
    by (simp add: GetPixelUberShaderForUid_unresolved_entry GetPixelUberShaderForUid_unresolved_module)
qed

lemma plain_compiled_once_pixel_uber_lookup:
  assumes "plain_compiled_once st"
  shows "plain_compiled_once (snd (GetPixelUberShaderForUid ext gen uid st))"
proof (cases "resolved (pus_shader_map st uid)")
  case True
  then obtain it where "pus_shader_map st uid = Some it" "initialized it"
    by (auto simp add: resolved_def split: option.splits)
  with assms show ?thesis
    by (simp add: GetPixelUberShaderForUid_resolved)
next
  case False
  let ?st' = "snd (GetPixelUberShaderForUid ext gen uid st)"
  have fresh: "uid \<notin> set (CompilePixelUberShader_calls st)"
    using assms False by (auto simp add: plain_compiled_once_def)
  have calls: "CompilePixelUberShader_calls ?st' = CompilePixelUberShader_calls st @ [uid]"
    using False by (rule GetPixelUberShaderForUid_unresolved_calls)
  have entry: "pus_shader_map ?st' = (pus_shader_map st)(uid \<mapsto> \<lparr> initialized = True, compiled = True,
      module = pixel_uber_module ext gen uid \<rparr>)"
    using False by (rule GetPixelUberShaderForUid_unresolved_entry)
  have "distinct (CompilePixelUberShader_calls ?st')"
    using assms fresh calls by (simp add: plain_compiled_once_def)
  moreover have "\<forall>k \<in> set (CompilePixelUberShader_calls ?st'). resolved (pus_shader_map ?st' k)"
    using assms calls entry by (auto simp add: plain_compiled_once_def resolved_def)
  ultimately show ?thesis
    using assms by (simp add: plain_compiled_once_def GetPixelUberShaderForUid_frame)
qed

text \<open>Runs of requests keep the invariants of the compile logs and every resolved entry.\<close>

lemma compiled_once_request_step:
  assumes "compiled_once (fst s)" and "plain_compiled_once (snd s)"
  shows "compiled_once (fst (request_step ext gen s r)) \<and>
         plain_compiled_once (snd (request_step ext gen s r))"
proof -
  obtain st ot where s: "s = (st, ot)"
    by (cases s)
  show ?thesis
    using assms
    by (cases r)
      (simp_all add: s compiled_once_vertex_lookup compiled_once_pixel_lookup
        compiled_once_CompileShaders plain_compiled_once_geometry_lookup
        plain_compiled_once_vertex_uber_lookup plain_compiled_once_pixel_uber_lookup)
qed

lemma compiled_once_run_requests:
  "compiled_once (fst s) \<Longrightarrow> plain_compiled_once (snd s) \<Longrightarrow>
     compiled_once (fst (run_requests ext gen rs s)) \<and>
     plain_compiled_once (snd (run_requests ext gen rs s))"
proof (induction rs arbitrary: s)
  case Nil
  then show ?case by (simp add: run_requests_def)
next
  case (Cons r rs)
  have step: "compiled_once (fst (request_step ext gen s r)) \<and>
      plain_compiled_once (snd (request_step ext gen s r))"
    using Cons.prems by (rule compiled_once_request_step)
  have "compiled_once (fst (run_requests ext gen rs (request_step ext gen s r))) \<and>
      plain_compiled_once (snd (run_requests ext gen rs (request_step ext gen s r)))"
    using step by (intro Cons.IH) simp_all
  then show ?case by (simp add: run_requests_def)
qed

lemma vs_entry_request_step_stable:
  assumes "vs_entry (fst s) k = Some it" and "initialized it"
  shows "vs_entry (fst (request_step ext gen s r)) k = Some it"
proof -
  obtain st ot where s: "s = (st, ot)"
    by (cases s)
  show ?thesis
    using assms
    by (cases r) (simp_all add: s vs_entry_vertex_lookup_stable vs_entry_pixel_lookup vs_entry_CompileShaders_stable)
qed

lemma vs_entry_run_requests_stable:
  "vs_entry (fst s) k = Some it \<Longrightarrow> initialized it \<Longrightarrow> vs_entry (fst (run_requests ext gen rs s)) k = Some it"
proof (induction rs arbitrary: s)
  case Nil
  then show ?case by (simp add: run_requests_def)
next
  case (Cons r rs)
  have "vs_entry (fst (request_step ext gen s r)) k = Some it"
    using Cons.prems by (rule vs_entry_request_step_stable)
  then have "vs_entry (fst (run_requests ext gen rs (request_step ext gen s r))) k = Some it"
    using Cons.prems(2) by (rule Cons.IH)
  then show ?case by (simp add: run_requests_def)
qed

lemma ps_entry_request_step_stable:
  assumes "ps_entry (fst s) k = Some it" and "initialized it"
  shows "ps_entry (fst (request_step ext gen s r)) k = Some it"
proof -
  obtain st ot where s: "s = (st, ot)"
    by (cases s)
  show ?thesis
    using assms
    by (cases r) (simp_all add: s ps_entry_pixel_lookup_stable ps_entry_vertex_lookup ps_entry_CompileShaders_stable)
qed

lemma ps_entry_run_requests_stable:
  "ps_entry (fst s) k = Some it \<Longrightarrow> initialized it \<Longrightarrow> ps_entry (fst (run_requests ext gen rs s)) k = Some it"
proof (induction rs arbitrary: s)
  case Nil
  then show ?case by (simp add: run_requests_def)
next
  case (Cons r rs)
  have "ps_entry (fst (request_step ext gen s r)) k = Some it"
    using Cons.prems by (rule ps_entry_request_step_stable)
  then have "ps_entry (fst (run_requests ext gen rs (request_step ext gen s r))) k = Some it"
    using Cons.prems(2) by (rule Cons.IH)
  then show ?case by (simp add: run_requests_def)
qed

lemma gs_shader_map_request_step_stable:
  assumes "gs_shader_map (snd s) k = Some it" and "initialized it"
  shows "gs_shader_map (snd (request_step ext gen s r)) k = Some it"
proof -
  obtain st ot where s: "s = (st, ot)"
    by (cases s)
  show ?thesis
    using assms
    by (cases r) (simp_all add: s GetGeometryShaderForUid_stable GetVertexUberShaderForUid_frame GetPixelUberShaderForUid_frame)
qed

lemma gs_shader_map_run_requests_stable:
  "gs_shader_map (snd s) k = Some it \<Longrightarrow> initialized it \<Longrightarrow> gs_shader_map (snd (run_requests ext gen rs s)) k = Some it"
proof (induction rs arbitrary: s)
  case Nil
  then show ?case by (simp add: run_requests_def)
next
  case (Cons r rs)
  have "gs_shader_map (snd (request_step ext gen s r)) k = Some it"
    using Cons.prems by (rule gs_shader_map_request_step_stable)
  then have "gs_shader_map (snd (run_requests ext gen rs (request_step ext gen s r))) k = Some it"
    using Cons.prems(2) by (rule Cons.IH)
  then show ?case by (simp add: run_requests_def)
qed

lemma vus_shader_map_request_step_stable:
  assumes "vus_shader_map (snd s) k = Some it" and "initialized it"
  shows "vus_shader_map (snd (request_step ext gen s r)) k = Some it"
proof -
  obtain st ot where s: "s = (st, ot)"
    by (cases s)
  show ?thesis
    using assms
    by (cases r) (simp_all add: s GetVertexUberShaderForUid_stable GetGeometryShaderForUid_frame GetPixelUberShaderForUid_frame)
qed

lemma vus_shader_map_run_requests_stable:
  "vus_shader_map (snd s) k = Some it \<Longrightarrow> initialized it \<Longrightarrow> vus_shader_map (snd (run_requests ext gen rs s)) k = Some it"
proof (induction rs arbitrary: s)
  case Nil
  then show ?case by (simp add: run_requests_def)
next
  case (Cons r rs)
  have "vus_shader_map (snd (request_step ext gen s r)) k = Some it"
    using Cons.prems by (rule vus_shader_map_request_step_stable)
  then have "vus_shader_map (snd (run_requests ext gen rs (request_step ext gen s r))) k = Some it"
    using Cons.prems(2) by (rule Cons.IH)
  then show ?case by (simp add: run_requests_def)
qed

lemma pus_shader_map_request_step_stable:
  assumes "pus_shader_map (snd s) k = Some it" and "initialized it"
  shows "pus_shader_map (snd (request_step ext gen s r)) k = Some it"
proof -
  obtain st ot where s: "s = (st, ot)"
    by (cases s)
  show ?thesis
    using assms
    by (cases r) (simp_all add: s GetPixelUberShaderForUid_stable GetGeometryShaderForUid_frame GetVertexUberShaderForUid_frame)
qed

lemma pus_shader_map_run_requests_stable:
  "pus_shader_map (snd s) k = Some it \<Longrightarrow> initialized it \<Longrightarrow> pus_shader_map (snd (run_requests ext gen rs s)) k = Some it"
proof (induction rs arbitrary: s)
  case Nil
  then show ?case by (simp add: run_requests_def)
next
  case (Cons r rs)
  have "pus_shader_map (snd (request_step ext gen s r)) k = Some it"
    using Cons.prems by (rule pus_shader_map_request_step_stable)
  then have "pus_shader_map (snd (run_requests ext gen rs (request_step ext gen s r))) k = Some it"
    using Cons.prems(2) by (rule Cons.IH)
  then show ?case by (simp add: run_requests_def)
qed

text \<open>After a lookup, the entry holds the module that the lookup returned.\<close>

lemma GetVertexShaderForUid_entry_module:
  "\<exists>it. vs_entry (snd (GetVertexShaderForUid ext uid st)) uid = Some it \<and> initialized it \<and>
        module it = fst (GetVertexShaderForUid ext uid st)"
proof (cases "resolved (vs_entry st uid)")
  case True
  then obtain it where "vs_entry st uid = Some it" "initialized it"
    by (auto simp add: resolved_def split: option.splits)
  then show ?thesis
    by (simp add: GetVertexShaderForUid_resolved)
next
  case False
  then show ?thesis
    by (simp add: GetVertexShaderForUid_unresolved_entry GetVertexShaderForUid_unresolved_module)
qed

lemma GetPixelShaderForUid_entry_module:
  "\<exists>it. ps_entry (snd (GetPixelShaderForUid ext uid st)) uid = Some it \<and> initialized it \<and>
        module it = fst (GetPixelShaderForUid ext uid st)"
proof (cases "resolved (ps_entry st uid)")
  case True
  then obtain it where "ps_entry st uid = Some it" "initialized it"
    by (auto simp add: resolved_def split: option.splits)
  then show ?thesis
    by (simp add: GetPixelShaderForUid_resolved)
next
  case False
  then show ?thesis
    by (simp add: GetPixelShaderForUid_unresolved_entry GetPixelShaderForUid_unresolved_module)
qed

text \<open>
  So a later lookup of the same key, after any run of requests, returns the module of
  the first lookup and changes nothing.
\<close>

lemma GetVertexShaderForUid_later:
  "GetVertexShaderForUid ext uid (fst (run_requests ext gen rs (snd (GetVertexShaderForUid ext uid st), ot))) =
     (fst (GetVertexShaderForUid ext uid st), fst (run_requests ext gen rs (snd (GetVertexShaderForUid ext uid st), ot)))"
proof -
  obtain it where it: "vs_entry (snd (GetVertexShaderForUid ext uid st)) uid = Some it"
      "initialized it" "module it = fst (GetVertexShaderForUid ext uid st)"
    using GetVertexShaderForUid_entry_module by blast
  have "vs_entry (fst (snd (GetVertexShaderForUid ext uid st), ot)) uid = Some it"
    using it(1) by simp
  then have "vs_entry (fst (run_requests ext gen rs (snd (GetVertexShaderForUid ext uid st), ot))) uid = Some it"
    using it(2) by (rule vs_entry_run_requests_stable)
  then show ?thesis
    using it(2,3) by (simp add: GetVertexShaderForUid_resolved)
qed

lemma GetPixelShaderForUid_later:
  "GetPixelShaderForUid ext uid (fst (run_requests ext gen rs (snd (GetPixelShaderForUid ext uid st), ot))) =
     (fst (GetPixelShaderForUid ext uid st), fst (run_requests ext gen rs (snd (GetPixelShaderForUid ext uid st), ot)))"
proof -
  obtain it where it: "ps_entry (snd (GetPixelShaderForUid ext uid st)) uid = Some it"
      "initialized it" "module it = fst (GetPixelShaderForUid ext uid st)"
    using GetPixelShaderForUid_entry_module by blast
  have "ps_entry (fst (snd (GetPixelShaderForUid ext uid st), ot)) uid = Some it"
    using it(1) by simp
  then have "ps_entry (fst (run_requests ext gen rs (snd (GetPixelShaderForUid ext uid st), ot))) uid = Some it"
    using it(2) by (rule ps_entry_run_requests_stable)
  then show ?thesis
    using it(2,3) by (simp add: GetPixelShaderForUid_resolved)
qed

lemma GetGeometryShaderForUid_later:
  "GetGeometryShaderForUid ext gen uid (snd (run_requests ext gen rs (st, snd (GetGeometryShaderForUid ext gen uid ot)))) =
     (fst (GetGeometryShaderForUid ext gen uid ot), snd (run_requests ext gen rs (st, snd (GetGeometryShaderForUid ext gen uid ot))))"
proof -
  obtain it where it: "gs_shader_map (snd (GetGeometryShaderForUid ext gen uid ot)) uid = Some it"
      "initialized it" "module it = fst (GetGeometryShaderForUid ext gen uid ot)"
    using GetGeometryShaderForUid_entry_module by blast
  have "gs_shader_map (snd (st, snd (GetGeometryShaderForUid ext gen uid ot))) uid = Some it"
    using it(1) by simp
  then have "gs_shader_map (snd (run_requests ext gen rs (st, snd (GetGeometryShaderForUid ext gen uid ot)))) uid = Some it"
    using it(2) by (rule gs_shader_map_run_requests_stable)
  then show ?thesis
    using it(2,3) by (simp add: GetGeometryShaderForUid_resolved)
qed

lemma GetVertexUberShaderForUid_later:
  "GetVertexUberShaderForUid ext gen uid (snd (run_requests ext gen rs (st, snd (GetVertexUberShaderForUid ext gen uid ot)))) =
     (fst (GetVertexUberShaderForUid ext gen uid ot), snd (run_requests ext gen rs (st, snd (GetVertexUberShaderForUid ext gen uid ot))))"
proof -
  obtain it where it: "vus_shader_map (snd (GetVertexUberShaderForUid ext gen uid ot)) uid = Some it"
      "initialized it" "module it = fst (GetVertexUberShaderForUid ext gen uid ot)"
    using GetVertexUberShaderForUid_entry_module by blast
  have "vus_shader_map (snd (st, snd (GetVertexUberShaderForUid ext gen uid ot))) uid = Some it"
    using it(1) by simp
  then have "vus_shader_map (snd (run_requests ext gen rs (st, snd (GetVertexUberShaderForUid ext gen uid ot)))) uid = Some it"
    using it(2) by (rule vus_shader_map_run_requests_stable)
  then show ?thesis
    using it(2,3) by (simp add: GetVertexUberShaderForUid_resolved)
qed

lemma GetPixelUberShaderForUid_later:
  "GetPixelUberShaderForUid ext gen uid (snd (run_requests ext gen rs (st, snd (GetPixelUberShaderForUid ext gen uid ot)))) =
     (fst (GetPixelUberShaderForUid ext gen uid ot), snd (run_requests ext gen rs (st, snd (GetPixelUberShaderForUid ext gen uid ot))))"
proof -
  obtain it where it: "pus_shader_map (snd (GetPixelUberShaderForUid ext gen uid ot)) uid = Some it"
      "initialized it" "module it = fst (GetPixelUberShaderForUid ext gen uid ot)"
    using GetPixelUberShaderForUid_entry_module by blast
  have "pus_shader_map (snd (st, snd (GetPixelUberShaderForUid ext gen uid ot))) uid = Some it"
    using it(1) by simp
  then have "pus_shader_map (snd (run_requests ext gen rs (st, snd (GetPixelUberShaderForUid ext gen uid ot)))) uid = Some it"
    using it(2) by (rule pus_shader_map_run_requests_stable)
  then show ?thesis
    using it(2,3) by (simp add: GetPixelUberShaderForUid_resolved)
qed

text \<open>Uids with the same data and the same cached hash are the same key.\<close>

lemma ShaderUid_same:
  fixes a b :: "'d ShaderUid"
  shows "GetUidData a = GetUidData b \<Longrightarrow> HASH a = HASH b \<Longrightarrow> a = b"
  by simp

text \<open>
  C1, as the code has it. Between a load of the shader caches and their teardown, the
  compiler is invoked at most once for every key: in any run of lookups (vertex, pixel,
  geometry, vertex uber and pixel uber) and precompilation passes that starts with empty
  compile logs, whatever the disk replay has put into the shader maps, no uid occurs
  twice in a compile log. A lookup that finds the entry of its key unresolved invokes
  the compiler for that key, and leaves the entry with the flag \<^verbatim>\<open>initialized\<close> set
  by \<^verbatim>\<open>test_and_set\<close>. Every later lookup with a structurally equal key that carries
  the same cached hash, after any further requests, returns the same stored module
  (which may be \<^verbatim>\<open>VK_NULL_HANDLE\<close>) and changes nothing, so it invokes no compiler.
  The model is sequential: that \<^verbatim>\<open>test_and_set\<close> is atomic is not expressed.
\<close>

theorem shader_compiled_at_most_once:
  "(CompileVertexShader_calls st = [] \<and>
    CompileFragmentShader_calls st = [] \<and>
    CompileGeometryShader_calls ot = [] \<and>
    CompileVertexUberShader_calls ot = [] \<and>
    CompilePixelUberShader_calls ot = [] \<longrightarrow>
      distinct (CompileVertexShader_calls (fst (run_requests ext gen rs (st, ot)))) \<and>
      distinct (CompileFragmentShader_calls (fst (run_requests ext gen rs (st, ot)))) \<and>
      distinct (CompileGeometryShader_calls (snd (run_requests ext gen rs (st, ot)))) \<and>
      distinct (CompileVertexUberShader_calls (snd (run_requests ext gen rs (st, ot)))) \<and>
      distinct (CompilePixelUberShader_calls (snd (run_requests ext gen rs (st, ot))))) \<and>
   (\<not> resolved (vs_entry st vuid) \<longrightarrow>
      CompileVertexShader_calls (snd (GetVertexShaderForUid ext vuid st)) = CompileVertexShader_calls st @ [vuid]) \<and>
   (\<not> resolved (ps_entry st puid) \<longrightarrow>
      CompileFragmentShader_calls (snd (GetPixelShaderForUid ext puid st)) = CompileFragmentShader_calls st @ [puid]) \<and>
   (\<not> resolved (gs_shader_map ot guid) \<longrightarrow>
      CompileGeometryShader_calls (snd (GetGeometryShaderForUid ext gen guid ot)) = CompileGeometryShader_calls ot @ [guid]) \<and>
   (\<not> resolved (vus_shader_map ot vuuid) \<longrightarrow>
      CompileVertexUberShader_calls (snd (GetVertexUberShaderForUid ext gen vuuid ot)) = CompileVertexUberShader_calls ot @ [vuuid]) \<and>
   (\<not> resolved (pus_shader_map ot puuid) \<longrightarrow>
      CompilePixelUberShader_calls (snd (GetPixelUberShaderForUid ext gen puuid ot)) = CompilePixelUberShader_calls ot @ [puuid]) \<and>
   resolved (vs_entry (snd (GetVertexShaderForUid ext vuid st)) vuid) \<and>
   resolved (ps_entry (snd (GetPixelShaderForUid ext puid st)) puid) \<and>
   resolved (gs_shader_map (snd (GetGeometryShaderForUid ext gen guid ot)) guid) \<and>
   resolved (vus_shader_map (snd (GetVertexUberShaderForUid ext gen vuuid ot)) vuuid) \<and>
   resolved (pus_shader_map (snd (GetPixelUberShaderForUid ext gen puuid ot)) puuid) \<and>
   (GetUidData vuid' = GetUidData vuid \<and> HASH vuid' = HASH vuid \<longrightarrow>
      GetVertexShaderForUid ext vuid' (fst (run_requests ext gen rs (snd (GetVertexShaderForUid ext vuid st), ot))) =
        (fst (GetVertexShaderForUid ext vuid st), fst (run_requests ext gen rs (snd (GetVertexShaderForUid ext vuid st), ot)))) \<and>
   (GetUidData puid' = GetUidData puid \<and> HASH puid' = HASH puid \<longrightarrow>
      GetPixelShaderForUid ext puid' (fst (run_requests ext gen rs (snd (GetPixelShaderForUid ext puid st), ot))) =
        (fst (GetPixelShaderForUid ext puid st), fst (run_requests ext gen rs (snd (GetPixelShaderForUid ext puid st), ot)))) \<and>
   (GetUidData guid' = GetUidData guid \<and> HASH guid' = HASH guid \<longrightarrow>
      GetGeometryShaderForUid ext gen guid' (snd (run_requests ext gen rs (st, snd (GetGeometryShaderForUid ext gen guid ot)))) =
        (fst (GetGeometryShaderForUid ext gen guid ot), snd (run_requests ext gen rs (st, snd (GetGeometryShaderForUid ext gen guid ot))))) \<and>
   (GetUidData vuuid' = GetUidData vuuid \<and> HASH vuuid' = HASH vuuid \<longrightarrow>
      GetVertexUberShaderForUid ext gen vuuid' (snd (run_requests ext gen rs (st, snd (GetVertexUberShaderForUid ext gen vuuid ot)))) =
        (fst (GetVertexUberShaderForUid ext gen vuuid ot), snd (run_requests ext gen rs (st, snd (GetVertexUberShaderForUid ext gen vuuid ot))))) \<and>
   (GetUidData puuid' = GetUidData puuid \<and> HASH puuid' = HASH puuid \<longrightarrow>
      GetPixelUberShaderForUid ext gen puuid' (snd (run_requests ext gen rs (st, snd (GetPixelUberShaderForUid ext gen puuid ot)))) =
        (fst (GetPixelUberShaderForUid ext gen puuid ot), snd (run_requests ext gen rs (st, snd (GetPixelUberShaderForUid ext gen puuid ot)))))"
proof -
  have once: "compiled_once (fst (run_requests ext gen rs (st, ot))) \<and>
      plain_compiled_once (snd (run_requests ext gen rs (st, ot)))"
    if "CompileVertexShader_calls st = [] \<and>
    CompileFragmentShader_calls st = [] \<and>
    CompileGeometryShader_calls ot = [] \<and>
    CompileVertexUberShader_calls ot = [] \<and>
    CompilePixelUberShader_calls ot = []"
    using that
    by (intro compiled_once_run_requests) (simp_all add: compiled_once_def plain_compiled_once_def)
  have "(CompileVertexShader_calls st = [] \<and>
    CompileFragmentShader_calls st = [] \<and>
    CompileGeometryShader_calls ot = [] \<and>
    CompileVertexUberShader_calls ot = [] \<and>
    CompilePixelUberShader_calls ot = [] \<longrightarrow>
      distinct (CompileVertexShader_calls (fst (run_requests ext gen rs (st, ot)))) \<and>
      distinct (CompileFragmentShader_calls (fst (run_requests ext gen rs (st, ot)))) \<and>
      distinct (CompileGeometryShader_calls (snd (run_requests ext gen rs (st, ot)))) \<and>
      distinct (CompileVertexUberShader_calls (snd (run_requests ext gen rs (st, ot)))) \<and>
      distinct (CompilePixelUberShader_calls (snd (run_requests ext gen rs (st, ot)))))"
    using once by (simp add: compiled_once_def plain_compiled_once_def)
  moreover have "(\<not> resolved (vs_entry st vuid) \<longrightarrow>
      CompileVertexShader_calls (snd (GetVertexShaderForUid ext vuid st)) = CompileVertexShader_calls st @ [vuid]) \<and>
   (\<not> resolved (ps_entry st puid) \<longrightarrow>
      CompileFragmentShader_calls (snd (GetPixelShaderForUid ext puid st)) = CompileFragmentShader_calls st @ [puid]) \<and>
   (\<not> resolved (gs_shader_map ot guid) \<longrightarrow>
      CompileGeometryShader_calls (snd (GetGeometryShaderForUid ext gen guid ot)) = CompileGeometryShader_calls ot @ [guid]) \<and>
   (\<not> resolved (vus_shader_map ot vuuid) \<longrightarrow>
      CompileVertexUberShader_calls (snd (GetVertexUberShaderForUid ext gen vuuid ot)) = CompileVertexUberShader_calls ot @ [vuuid]) \<and>
   (\<not> resolved (pus_shader_map ot puuid) \<longrightarrow>
      CompilePixelUberShader_calls (snd (GetPixelUberShaderForUid ext gen puuid ot)) = CompilePixelUberShader_calls ot @ [puuid])"
    by (simp add: GetVertexShaderForUid_unresolved_calls GetPixelShaderForUid_unresolved_calls
        GetGeometryShaderForUid_unresolved_calls GetVertexUberShaderForUid_unresolved_calls
        GetPixelUberShaderForUid_unresolved_calls)
  moreover have "resolved (vs_entry (snd (GetVertexShaderForUid ext vuid st)) vuid) \<and>
   resolved (ps_entry (snd (GetPixelShaderForUid ext puid st)) puid) \<and>
   resolved (gs_shader_map (snd (GetGeometryShaderForUid ext gen guid ot)) guid) \<and>
   resolved (vus_shader_map (snd (GetVertexUberShaderForUid ext gen vuuid ot)) vuuid) \<and>
   resolved (pus_shader_map (snd (GetPixelUberShaderForUid ext gen puuid ot)) puuid)"
    by (simp add: GetVertexShaderForUid_resolves GetPixelShaderForUid_resolves
        GetGeometryShaderForUid_resolves GetVertexUberShaderForUid_resolves
        GetPixelUberShaderForUid_resolves)
  moreover have "(GetUidData vuid' = GetUidData vuid \<and> HASH vuid' = HASH vuid \<longrightarrow>
      GetVertexShaderForUid ext vuid' (fst (run_requests ext gen rs (snd (GetVertexShaderForUid ext vuid st), ot))) =
        (fst (GetVertexShaderForUid ext vuid st), fst (run_requests ext gen rs (snd (GetVertexShaderForUid ext vuid st), ot))))"
  proof
    assume "GetUidData vuid' = GetUidData vuid \<and> HASH vuid' = HASH vuid"
    then have "vuid' = vuid"
      by (simp add: ShaderUid_same)
    then show "GetVertexShaderForUid ext vuid' (fst (run_requests ext gen rs (snd (GetVertexShaderForUid ext vuid st), ot))) =
        (fst (GetVertexShaderForUid ext vuid st), fst (run_requests ext gen rs (snd (GetVertexShaderForUid ext vuid st), ot)))"
      by (simp add: GetVertexShaderForUid_later)
  qed
  moreover have "(GetUidData puid' = GetUidData puid \<and> HASH puid' = HASH puid \<longrightarrow>
      GetPixelShaderForUid ext puid' (fst (run_requests ext gen rs (snd (GetPixelShaderForUid ext puid st), ot))) =
        (fst (GetPixelShaderForUid ext puid st), fst (run_requests ext gen rs (snd (GetPixelShaderForUid ext puid st), ot))))"
  proof
    assume "GetUidData puid' = GetUidData puid \<and> HASH puid' = HASH puid"
    then have "puid' = puid"
      by (simp add: ShaderUid_same)
    then show "GetPixelShaderForUid ext puid' (fst (run_requests ext gen rs (snd (GetPixelShaderForUid ext puid st), ot))) =
        (fst (GetPixelShaderForUid ext puid st), fst (run_requests ext gen rs (snd (GetPixelShaderForUid ext puid st), ot)))"
      by (simp add: GetPixelShaderForUid_later)
  qed
  moreover have "(GetUidData guid' = GetUidData guid \<and> HASH guid' = HASH guid \<longrightarrow>
      GetGeometryShaderForUid ext gen guid' (snd (run_requests ext gen rs (st, snd (GetGeometryShaderForUid ext gen guid ot)))) =
        (fst (GetGeometryShaderForUid ext gen guid ot), snd (run_requests ext gen rs (st, snd (GetGeometryShaderForUid ext gen guid ot)))))"
  proof
    assume "GetUidData guid' = GetUidData guid \<and> HASH guid' = HASH guid"
    then have "guid' = guid"
      by (simp add: ShaderUid_same)
    then show "GetGeometryShaderForUid ext gen guid' (snd (run_requests ext gen rs (st, snd (GetGeometryShaderForUid ext gen guid ot)))) =
        (fst (GetGeometryShaderForUid ext gen guid ot), snd (run_requests ext gen rs (st, snd (GetGeometryShaderForUid ext gen guid ot))))"
      by (simp add: GetGeometryShaderForUid_later)
  qed
  moreover have "(GetUidData vuuid' = GetUidData vuuid \<and> HASH vuuid' = HASH vuuid \<longrightarrow>
      GetVertexUberShaderForUid ext gen vuuid' (snd (run_requests ext gen rs (st, snd (GetVertexUberShaderForUid ext gen vuuid ot)))) =
        (fst (GetVertexUberShaderForUid ext gen vuuid ot), snd (run_requests ext gen rs (st, snd (GetVertexUberShaderForUid ext gen vuuid ot)))))"
  proof
    assume "GetUidData vuuid' = GetUidData vuuid \<and> HASH vuuid' = HASH vuuid"
    then have "vuuid' = vuuid"
      by (simp add: ShaderUid_same)
    then show "GetVertexUberShaderForUid ext gen vuuid' (snd (run_requests ext gen rs (st, snd (GetVertexUberShaderForUid ext gen vuuid ot)))) =
        (fst (GetVertexUberShaderForUid ext gen vuuid ot), snd (run_requests ext gen rs (st, snd (GetVertexUberShaderForUid ext gen vuuid ot))))"
      by (simp add: GetVertexUberShaderForUid_later)
  qed
  moreover have "(GetUidData puuid' = GetUidData puuid \<and> HASH puuid' = HASH puuid \<longrightarrow>
      GetPixelUberShaderForUid ext gen puuid' (snd (run_requests ext gen rs (st, snd (GetPixelUberShaderForUid ext gen puuid ot)))) =
        (fst (GetPixelUberShaderForUid ext gen puuid ot), snd (run_requests ext gen rs (st, snd (GetPixelUberShaderForUid ext gen puuid ot)))))"
  proof
    assume "GetUidData puuid' = GetUidData puuid \<and> HASH puuid' = HASH puuid"
    then have "puuid' = puuid"
      by (simp add: ShaderUid_same)
    then show "GetPixelUberShaderForUid ext gen puuid' (snd (run_requests ext gen rs (st, snd (GetPixelUberShaderForUid ext gen puuid ot)))) =
        (fst (GetPixelUberShaderForUid ext gen puuid ot), snd (run_requests ext gen rs (st, snd (GetPixelUberShaderForUid ext gen puuid ot))))"
      by (simp add: GetPixelUberShaderForUid_later)
  qed
  ultimately show ?thesis
    by blast
qed

lemma fresh_state_unresolved:
  "\<not> resolved (vs_entry fresh_state uid)" "\<not> resolved (ps_entry fresh_state uid')"
  by (simp_all add: resolved_def vs_entry_def ps_entry_def fresh_state_def empty_profiler_def)

lemma fresh_state_calls:
  "CompileVertexShader_calls fresh_state = []" "CompileFragmentShader_calls fresh_state = []"
  by (simp_all add: fresh_state_def)

lemma fresh_plain_state_unresolved:
  "\<not> resolved (gs_shader_map fresh_plain_state g)"
  "\<not> resolved (vus_shader_map fresh_plain_state v)"
  "\<not> resolved (pus_shader_map fresh_plain_state p)"
  by (simp_all add: resolved_def fresh_plain_state_def)

lemma fresh_plain_state_calls:
  "CompileGeometryShader_calls fresh_plain_state = []"
  "CompileVertexUberShader_calls fresh_plain_state = []"
  "CompilePixelUberShader_calls fresh_plain_state = []"
  by (simp_all add: fresh_plain_state_def)

theorem shader_compiled_at_most_once_witness:
  "CompileVertexShader_calls fresh_state = [] \<and> CompileFragmentShader_calls fresh_state = [] \<and>
   CompileGeometryShader_calls fresh_plain_state = [] \<and>
   CompileVertexUberShader_calls fresh_plain_state = [] \<and>
   CompilePixelUberShader_calls fresh_plain_state = [] \<and>
   \<not> resolved (vs_entry fresh_state uid_A) \<and> \<not> resolved (ps_entry fresh_state uid_B) \<and>
   \<not> resolved (gs_shader_map fresh_plain_state uid_C) \<and>
   \<not> resolved (vus_shader_map fresh_plain_state uid_A) \<and>
   \<not> resolved (pus_shader_map fresh_plain_state uid_B) \<and>
   distinct (CompileVertexShader_calls (fst (run_requests failing_ext example_gen
     [VertexLookup uid_A, Precompile 1, GeometryLookup uid_C, PixelLookup uid_B, VertexLookup uid_A] (fresh_state, fresh_plain_state)))) \<and>
   distinct (CompileGeometryShader_calls (snd (run_requests failing_ext example_gen
     [VertexLookup uid_A, Precompile 1, GeometryLookup uid_C, PixelLookup uid_B, VertexLookup uid_A] (fresh_state, fresh_plain_state)))) \<and>
   CompileVertexShader_calls (snd (GetVertexShaderForUid failing_ext uid_A fresh_state)) = [uid_A] \<and>
   CompileFragmentShader_calls (snd (GetPixelShaderForUid failing_ext uid_B fresh_state)) = [uid_B] \<and>
   CompileGeometryShader_calls
     (snd (GetGeometryShaderForUid failing_ext example_gen uid_C fresh_plain_state)) = [uid_C] \<and>
   CompileVertexUberShader_calls
     (snd (GetVertexUberShaderForUid failing_ext example_gen uid_A fresh_plain_state)) = [uid_A] \<and>
   CompilePixelUberShader_calls
     (snd (GetPixelUberShaderForUid failing_ext example_gen uid_B fresh_plain_state)) = [uid_B] \<and>
   GetUidData uid_A = GetUidData uid_A \<and> HASH uid_A = HASH uid_A \<and>
   GetVertexShaderForUid failing_ext uid_A
     (fst (run_requests failing_ext example_gen [VertexLookup uid_A, Precompile 1, GeometryLookup uid_C, PixelLookup uid_B, VertexLookup uid_A]
        (snd (GetVertexShaderForUid failing_ext uid_A fresh_state), fresh_plain_state))) =
     (fst (GetVertexShaderForUid failing_ext uid_A fresh_state),
      fst (run_requests failing_ext example_gen [VertexLookup uid_A, Precompile 1, GeometryLookup uid_C, PixelLookup uid_B, VertexLookup uid_A]
        (snd (GetVertexShaderForUid failing_ext uid_A fresh_state), fresh_plain_state))) \<and>
   GetGeometryShaderForUid failing_ext example_gen uid_C
     (snd (run_requests failing_ext example_gen [VertexLookup uid_A, Precompile 1, GeometryLookup uid_C, PixelLookup uid_B, VertexLookup uid_A]
        (fresh_state, snd (GetGeometryShaderForUid failing_ext example_gen uid_C fresh_plain_state)))) =
     (fst (GetGeometryShaderForUid failing_ext example_gen uid_C fresh_plain_state),
      snd (run_requests failing_ext example_gen [VertexLookup uid_A, Precompile 1, GeometryLookup uid_C, PixelLookup uid_B, VertexLookup uid_A]
        (fresh_state, snd (GetGeometryShaderForUid failing_ext example_gen uid_C fresh_plain_state))))"
  using shader_compiled_at_most_once
    [where st = fresh_state and ot = fresh_plain_state and ext = failing_ext
      and gen = example_gen and rs = "[VertexLookup uid_A, Precompile 1, GeometryLookup uid_C, PixelLookup uid_B, VertexLookup uid_A]"
      and vuid = uid_A and vuid' = uid_A and puid = uid_B and puid' = uid_B
      and guid = uid_C and guid' = uid_C and vuuid = uid_A and vuuid' = uid_A
      and puuid = uid_B and puuid' = uid_B]
  by (simp add: fresh_state_unresolved fresh_state_calls fresh_plain_state_unresolved
      fresh_plain_state_calls)

text \<open>
  The claim C1 speaks of the process lifetime and of every structurally equal key.
  \<^verbatim>\<open>Reload()\<close> tears the shader caches down and loads them again in the same process,
  and a failed compile is not on disk: the lookup of a key whose compile failed before
  the reload invokes the compiler a second time after it. And a key with the same uid
  data but another cached hash is another key of the map: its lookup invokes the
  compiler again.
\<close>

theorem compiled_twice_in_one_process:
  "CompileVertexShader_calls
     (snd (GetVertexShaderForUid failing_ext uid_A
        (LoadShaderCaches failing_ext empty_profiler empty_profiler 1 False False True
           (DestroyShaderCaches (snd (GetVertexShaderForUid failing_ext uid_A fresh_state))))))
   = [uid_A, uid_A] \<and>
   GetUidData stale_uid = GetUidData uid_A \<and>
   CompileVertexShader_calls
     (snd (GetVertexShaderForUid failing_ext stale_uid
        (snd (GetVertexShaderForUid failing_ext uid_A fresh_state))))
   = [uid_A, stale_uid]"
  by (simp add: vertex_lookup_defs fresh_state_def empty_profiler_def failing_ext_def
      example_ext_def uid_A_def stale_uid_def DestroyShaderCaches_def
      DestroyShaderUsageCache_def LoadShaderCaches_def OpenAndRead_def CompileShaders_def
      ForEachMostUsedByCategory_def candidates_def)

section \<open>The outcome of a compile\<close>

lemma CompileVertexShaderForUid_item:
  "fst (CompileVertexShaderForUid ext uid it st) =
     it\<lparr>compiled := True, module := vertex_module ext uid\<rparr>"
  by (auto simp add: CompileVertexShaderForUid_def vertex_module_def Let_def
      split: option.splits prod.splits)

lemma CompilePixelShaderForUid_item:
  "fst (CompilePixelShaderForUid ext uid it st) =
     it\<lparr>compiled := True, module := pixel_module ext uid\<rparr>"
  by (auto simp add: CompilePixelShaderForUid_def pixel_module_def Let_def
      split: option.splits prod.splits)

text \<open>
  C3, as the code has it. \<^verbatim>\<open>CompileVertexShaderForUid\<close> and
  \<^verbatim>\<open>CompilePixelShaderForUid\<close> set \<^verbatim>\<open>compiled\<close> on every path. A lookup that finds
  the entry of its key unresolved leaves, when the compiler rejects the source or when
  no module can be created from the compiled code, the entry with \<^verbatim>\<open>initialized\<close>
  true, \<^verbatim>\<open>compiled\<close> true and a null module, returns \<^verbatim>\<open>VK_NULL_HANDLE\<close> and
  appends nothing to the disk cache. When the module is created, the entry holds it, and
  one record with the uid and the compiled code is appended to the disk cache.
\<close>

theorem failed_compile_entry:
  "compiled (fst (CompileVertexShaderForUid ext vuid it st)) \<and>
   compiled (fst (CompilePixelShaderForUid ext puid it st)) \<and>
   (\<not> resolved (vs_entry st vuid) \<longrightarrow>
      (CompileVertexShader ext (GenerateVertexShaderCode ext (GetUidData vuid)) = None \<or>
       CompileVertexShader ext (GenerateVertexShaderCode ext (GetUidData vuid)) = Some spv \<and>
         CreateShaderModule ext spv = VK_NULL_HANDLE \<longrightarrow>
         fst (GetVertexShaderForUid ext vuid st) = VK_NULL_HANDLE \<and>
         vs_entry (snd (GetVertexShaderForUid ext vuid st)) vuid =
           Some \<lparr> initialized = True, compiled = True, module = VK_NULL_HANDLE \<rparr> \<and>
         disk_cache (m_vs_cache (snd (GetVertexShaderForUid ext vuid st))) =
           disk_cache (m_vs_cache st)) \<and>
      (CompileVertexShader ext (GenerateVertexShaderCode ext (GetUidData vuid)) = Some spv \<and>
         CreateShaderModule ext spv \<noteq> VK_NULL_HANDLE \<longrightarrow>
         fst (GetVertexShaderForUid ext vuid st) = CreateShaderModule ext spv \<and>
         vs_entry (snd (GetVertexShaderForUid ext vuid st)) vuid =
           Some \<lparr> initialized = True, compiled = True, module = CreateShaderModule ext spv \<rparr> \<and>
         disk_cache (m_vs_cache (snd (GetVertexShaderForUid ext vuid st))) =
           disk_cache (m_vs_cache st) @ [(vuid, take (unat (size_u32 spv)) spv)])) \<and>
   (\<not> resolved (ps_entry st puid) \<longrightarrow>
      (CompileFragmentShader ext (GeneratePixelShaderCode ext (GetUidData puid)) = None \<or>
       CompileFragmentShader ext (GeneratePixelShaderCode ext (GetUidData puid)) = Some spv' \<and>
         CreateShaderModule ext spv' = VK_NULL_HANDLE \<longrightarrow>
         fst (GetPixelShaderForUid ext puid st) = VK_NULL_HANDLE \<and>
         ps_entry (snd (GetPixelShaderForUid ext puid st)) puid =
           Some \<lparr> initialized = True, compiled = True, module = VK_NULL_HANDLE \<rparr> \<and>
         disk_cache (m_ps_cache (snd (GetPixelShaderForUid ext puid st))) =
           disk_cache (m_ps_cache st)) \<and>
      (CompileFragmentShader ext (GeneratePixelShaderCode ext (GetUidData puid)) = Some spv' \<and>
         CreateShaderModule ext spv' \<noteq> VK_NULL_HANDLE \<longrightarrow>
         fst (GetPixelShaderForUid ext puid st) = CreateShaderModule ext spv' \<and>
         ps_entry (snd (GetPixelShaderForUid ext puid st)) puid =
           Some \<lparr> initialized = True, compiled = True, module = CreateShaderModule ext spv' \<rparr> \<and>
         disk_cache (m_ps_cache (snd (GetPixelShaderForUid ext puid st))) =
           disk_cache (m_ps_cache st) @ [(puid, take (unat (size_u32 spv')) spv')]))"
proof -
  have vertex: "\<not> resolved (vs_entry st vuid) \<Longrightarrow>
      fst (GetVertexShaderForUid ext vuid st) = vertex_module ext vuid \<and>
      vs_entry (snd (GetVertexShaderForUid ext vuid st)) vuid =
        Some \<lparr> initialized = True, compiled = True, module = vertex_module ext vuid \<rparr>"
    by (simp add: GetVertexShaderForUid_unresolved_module GetVertexShaderForUid_unresolved_entry)
  have pixel: "\<not> resolved (ps_entry st puid) \<Longrightarrow>
      fst (GetPixelShaderForUid ext puid st) = pixel_module ext puid \<and>
      ps_entry (snd (GetPixelShaderForUid ext puid st)) puid =
        Some \<lparr> initialized = True, compiled = True, module = pixel_module ext puid \<rparr>"
    by (simp add: GetPixelShaderForUid_unresolved_module GetPixelShaderForUid_unresolved_entry)
  have "compiled (fst (CompileVertexShaderForUid ext vuid it st))"
    by (simp add: CompileVertexShaderForUid_item)
  moreover have "compiled (fst (CompilePixelShaderForUid ext puid it st))"
    by (simp add: CompilePixelShaderForUid_item)
  moreover have "\<not> resolved (vs_entry st vuid) \<longrightarrow>
      (CompileVertexShader ext (GenerateVertexShaderCode ext (GetUidData vuid)) = None \<or>
       CompileVertexShader ext (GenerateVertexShaderCode ext (GetUidData vuid)) = Some spv \<and>
         CreateShaderModule ext spv = VK_NULL_HANDLE \<longrightarrow>
         fst (GetVertexShaderForUid ext vuid st) = VK_NULL_HANDLE \<and>
         vs_entry (snd (GetVertexShaderForUid ext vuid st)) vuid =
           Some \<lparr> initialized = True, compiled = True, module = VK_NULL_HANDLE \<rparr> \<and>
         disk_cache (m_vs_cache (snd (GetVertexShaderForUid ext vuid st))) =
           disk_cache (m_vs_cache st)) \<and>
      (CompileVertexShader ext (GenerateVertexShaderCode ext (GetUidData vuid)) = Some spv \<and>
         CreateShaderModule ext spv \<noteq> VK_NULL_HANDLE \<longrightarrow>
         fst (GetVertexShaderForUid ext vuid st) = CreateShaderModule ext spv \<and>
         vs_entry (snd (GetVertexShaderForUid ext vuid st)) vuid =
           Some \<lparr> initialized = True, compiled = True, module = CreateShaderModule ext spv \<rparr> \<and>
         disk_cache (m_vs_cache (snd (GetVertexShaderForUid ext vuid st))) =
           disk_cache (m_vs_cache st) @ [(vuid, take (unat (size_u32 spv)) spv)])"
    using vertex
    by (auto simp add: GetVertexShaderForUid_unresolved_disk vertex_module_def)
  moreover have "\<not> resolved (ps_entry st puid) \<longrightarrow>
      (CompileFragmentShader ext (GeneratePixelShaderCode ext (GetUidData puid)) = None \<or>
       CompileFragmentShader ext (GeneratePixelShaderCode ext (GetUidData puid)) = Some spv' \<and>
         CreateShaderModule ext spv' = VK_NULL_HANDLE \<longrightarrow>
         fst (GetPixelShaderForUid ext puid st) = VK_NULL_HANDLE \<and>
         ps_entry (snd (GetPixelShaderForUid ext puid st)) puid =
           Some \<lparr> initialized = True, compiled = True, module = VK_NULL_HANDLE \<rparr> \<and>
         disk_cache (m_ps_cache (snd (GetPixelShaderForUid ext puid st))) =
           disk_cache (m_ps_cache st)) \<and>
      (CompileFragmentShader ext (GeneratePixelShaderCode ext (GetUidData puid)) = Some spv' \<and>
         CreateShaderModule ext spv' \<noteq> VK_NULL_HANDLE \<longrightarrow>
         fst (GetPixelShaderForUid ext puid st) = CreateShaderModule ext spv' \<and>
         ps_entry (snd (GetPixelShaderForUid ext puid st)) puid =
           Some \<lparr> initialized = True, compiled = True, module = CreateShaderModule ext spv' \<rparr> \<and>
         disk_cache (m_ps_cache (snd (GetPixelShaderForUid ext puid st))) =
           disk_cache (m_ps_cache st) @ [(puid, take (unat (size_u32 spv')) spv')])"
    using pixel
    by (auto simp add: GetPixelShaderForUid_unresolved_disk pixel_module_def)
  ultimately show ?thesis
    by blast
qed

theorem failed_compile_entry_witness:
  "\<not> resolved (vs_entry fresh_state uid_A) \<and> \<not> resolved (ps_entry fresh_state uid_B) \<and>
   CompileVertexShader failing_ext (GenerateVertexShaderCode failing_ext (GetUidData uid_A)) = None \<and>
   CompileFragmentShader failing_ext (GeneratePixelShaderCode failing_ext (GetUidData uid_B)) = None \<and>
   fst (GetVertexShaderForUid failing_ext uid_A fresh_state) = VK_NULL_HANDLE \<and>
   disk_cache (m_vs_cache (snd (GetVertexShaderForUid failing_ext uid_A fresh_state))) = [] \<and>
   disk_cache (m_ps_cache (snd (GetPixelShaderForUid failing_ext uid_B fresh_state))) = [] \<and>
   CompileVertexShader example_ext (GenerateVertexShaderCode example_ext (GetUidData uid_A)) =
     Some [0x07230203, 1] \<and>
   CreateShaderModule example_ext [0x07230203, 1] \<noteq> VK_NULL_HANDLE \<and>
   disk_cache (m_vs_cache (snd (GetVertexShaderForUid example_ext uid_A fresh_state))) =
     [(uid_A, [0x07230203, 1])]"
proof -
  have disk: "disk_cache (m_vs_cache fresh_state) = []" "disk_cache (m_ps_cache fresh_state) = []"
    by (simp_all add: fresh_state_def)
  show ?thesis
    using failed_compile_entry [of failing_ext uid_A _ fresh_state uid_B]
      failed_compile_entry [of example_ext uid_A _ fresh_state uid_B "[0x07230203, 1]"]
    by (simp add: fresh_state_unresolved disk failing_ext_def example_ext_def size_u32_def
        VK_NULL_HANDLE_def)
qed

text \<open>
  The claim C3 says that a failed compile leaves \<^verbatim>\<open>compiled\<close> false. With a compiler
  that rejects the source, the entry after the lookup has \<^verbatim>\<open>compiled\<close> true.
\<close>

theorem failed_compile_sets_compiled:
  "CompileVertexShader failing_ext (GenerateVertexShaderCode failing_ext (GetUidData uid_A)) = None \<and>
   vs_entry (snd (GetVertexShaderForUid failing_ext uid_A fresh_state)) uid_A =
     Some \<lparr> initialized = True, compiled = True, module = VK_NULL_HANDLE \<rparr>"
  by (simp add: vertex_lookup_defs fresh_state_def empty_profiler_def failing_ext_def
      example_ext_def)

section \<open>Replay of the disk caches\<close>

lemma vkShaderItem_updated:
  "it\<lparr>initialized := a, compiled := b, module := c\<rparr> =
     \<lparr> initialized = a, compiled = b, module = c \<rparr>"
  by (cases it) simp

lemma ShaderUsageCacheReader_Read_null:
  "create value = VK_NULL_HANDLE \<Longrightarrow>
     ShaderUsageCacheReader_Read create hash_of key value p = p"
  by (simp add: ShaderUsageCacheReader_Read_def)

lemma ShaderUsageCacheReader_Read_created:
  "create value \<noteq> VK_NULL_HANDLE \<Longrightarrow>
     ShaderUsageCacheReader_Read create hash_of key value p =
       p\<lparr>info_map := (info_map p)(key \<mapsto>
            \<lparr> initialized = True, compiled = True, module = create value \<rparr>)\<rparr>"
  by (auto simp add: ShaderUsageCacheReader_Read_def GetOrAdd_def map_index_def Let_def
      test_and_set_def store_item_def new_vkShaderItem_def vkShaderItem_updated
      split: option.splits)

lemma ShaderCacheReader_Read_null:
  "create value = VK_NULL_HANDLE \<Longrightarrow>
     ShaderCacheReader_Read create hash_of key value m = m"
  by (simp add: ShaderCacheReader_Read_def)

lemma ShaderCacheReader_Read_created:
  "create value \<noteq> VK_NULL_HANDLE \<Longrightarrow>
     ShaderCacheReader_Read create hash_of key value m =
       m(key \<mapsto> \<lparr> initialized = True, compiled = True, module = create value \<rparr>)"
  by (auto simp add: ShaderCacheReader_Read_def map_index_def Let_def
      test_and_set_def new_vkShaderItem_def vkShaderItem_updated split: option.splits)

text \<open>
  The entries that a replay inserts: one for each record whose module is created, the
  later record of a key overriding the earlier one.
\<close>

lemma replay_usage_info_map:
  "info_map (snd (OpenAndRead (Some records) (ShaderUsageCacheReader_Read create hash_of) p)) =
     info_map p ++ map_of (rev (map (\<lambda>(key, value).
         (key, \<lparr> initialized = True, compiled = True, module = create value \<rparr>))
       (filter (\<lambda>(key, value). create value \<noteq> VK_NULL_HANDLE) records)))"
proof (induction records rule: rev_induct)
  case Nil
  then show ?case by (simp add: OpenAndRead_def)
next
  case (snoc r records)
  obtain k v where r: "r = (k, v)"
    by (cases r)
  show ?case
  proof (cases "create v = VK_NULL_HANDLE")
    case True
    with snoc r show ?thesis
      by (simp add: OpenAndRead_def ShaderUsageCacheReader_Read_null)
  next
    case False
    with snoc r show ?thesis
      by (auto simp add: OpenAndRead_def ShaderUsageCacheReader_Read_created fun_eq_iff
          map_add_def)
  qed
qed

lemma replay_usage_usage:
  "usage (snd (OpenAndRead (Some records) (ShaderUsageCacheReader_Read create hash_of) p)) =
     usage p"
proof (induction records rule: rev_induct)
  case Nil
  then show ?case by (simp add: OpenAndRead_def)
next
  case (snoc r records)
  obtain k v where r: "r = (k, v)"
    by (cases r)
  from snoc r show ?case
    by (cases "create v = VK_NULL_HANDLE")
      (simp_all add: OpenAndRead_def ShaderUsageCacheReader_Read_null
        ShaderUsageCacheReader_Read_created)
qed

lemma replay_map:
  "snd (OpenAndRead (Some records) (ShaderCacheReader_Read create hash_of) m) =
     m ++ map_of (rev (map (\<lambda>(key, value).
         (key, \<lparr> initialized = True, compiled = True, module = create value \<rparr>))
       (filter (\<lambda>(key, value). create value \<noteq> VK_NULL_HANDLE) records)))"
proof (induction records rule: rev_induct)
  case Nil
  then show ?case by (simp add: OpenAndRead_def)
next
  case (snoc r records)
  obtain k v where r: "r = (k, v)"
    by (cases r)
  show ?case
  proof (cases "create v = VK_NULL_HANDLE")
    case True
    with snoc r show ?thesis
      by (simp add: OpenAndRead_def ShaderCacheReader_Read_null)
  next
    case False
    with snoc r show ?thesis
      by (auto simp add: OpenAndRead_def ShaderCacheReader_Read_created fun_eq_iff map_add_def)
  qed
qed

lemma map_of_rev_live_None:
  assumes "\<forall>value. (k, value) \<in> set records \<longrightarrow> create value = VK_NULL_HANDLE"
  shows "map_of (rev (map (\<lambda>(key, value). (key, f value))
           (filter (\<lambda>(key, value). create value \<noteq> VK_NULL_HANDLE) records))) k = None"
  using assms by (auto simp add: map_of_eq_None_iff image_iff)

text \<open>
  C4, as the code has it. A record whose payload gives no module
  (\<^verbatim>\<open>Util::CreateShaderModule\<close> returns \<^verbatim>\<open>VK_NULL_HANDLE\<close>) leaves the shader map
  as it is, for both readers; a zero-length payload is such a record only when the
  driver rejects it, since the readers do not look at the length. A record whose module
  is created puts the entry with \<^verbatim>\<open>initialized\<close> and \<^verbatim>\<open>compiled\<close> set and that
  module under its key. So after the replay of a file, a key all of whose records give
  no module has the entry it had before (none, if it had none), and the map holds, for
  every other key of the file, the entry made from the last record of the key whose
  module is created.
\<close>

theorem replay_drops_null_modules:
  "(create value = VK_NULL_HANDLE \<longrightarrow>
      ShaderUsageCacheReader_Read create hash_of key value p = p \<and>
      ShaderCacheReader_Read create hash_of key value m = m) \<and>
   (create value \<noteq> VK_NULL_HANDLE \<longrightarrow>
      ShaderUsageCacheReader_Read create hash_of key value p =
        p\<lparr>info_map := (info_map p)(key \<mapsto>
             \<lparr> initialized = True, compiled = True, module = create value \<rparr>)\<rparr> \<and>
      ShaderCacheReader_Read create hash_of key value m =
        m(key \<mapsto> \<lparr> initialized = True, compiled = True, module = create value \<rparr>)) \<and>
   ((\<forall>v. (key, v) \<in> set records \<longrightarrow> create v = VK_NULL_HANDLE) \<longrightarrow>
      info_map (snd (OpenAndRead (Some records) (ShaderUsageCacheReader_Read create hash_of) p)) key =
        info_map p key \<and>
      snd (OpenAndRead (Some records) (ShaderCacheReader_Read create hash_of) m) key = m key) \<and>
   info_map (snd (OpenAndRead (Some records) (ShaderUsageCacheReader_Read create hash_of) p)) =
     info_map p ++ map_of (rev (map (\<lambda>(key, value).
         (key, \<lparr> initialized = True, compiled = True, module = create value \<rparr>))
       (filter (\<lambda>(key, value). create value \<noteq> VK_NULL_HANDLE) records))) \<and>
   snd (OpenAndRead (Some records) (ShaderCacheReader_Read create hash_of) m) =
     m ++ map_of (rev (map (\<lambda>(key, value).
         (key, \<lparr> initialized = True, compiled = True, module = create value \<rparr>))
       (filter (\<lambda>(key, value). create value \<noteq> VK_NULL_HANDLE) records)))"
proof -
  have "(\<forall>v. (key, v) \<in> set records \<longrightarrow> create v = VK_NULL_HANDLE) \<longrightarrow>
      info_map (snd (OpenAndRead (Some records) (ShaderUsageCacheReader_Read create hash_of) p)) key =
        info_map p key \<and>
      snd (OpenAndRead (Some records) (ShaderCacheReader_Read create hash_of) m) key = m key"
    by (simp add: replay_usage_info_map replay_map map_add_def map_of_rev_live_None)
  then show ?thesis
    by (simp add: ShaderUsageCacheReader_Read_null ShaderUsageCacheReader_Read_created
        ShaderCacheReader_Read_null ShaderCacheReader_Read_created
        replay_usage_info_map replay_map)
qed

theorem replay_drops_null_modules_witness:
  "CreateShaderModule example_ext [] = VK_NULL_HANDLE \<and>
   CreateShaderModule example_ext [0x07230203, 1] \<noteq> VK_NULL_HANDLE \<and>
   ShaderCacheReader_Read (CreateShaderModule example_ext) (vs_hash_of example_ext) uid_A []
     Map.empty = Map.empty \<and>
   ShaderCacheReader_Read (CreateShaderModule example_ext) (vs_hash_of example_ext) uid_B
     [0x07230203, 1] Map.empty =
     [uid_B \<mapsto> \<lparr> initialized = True, compiled = True, module = 42 \<rparr>] \<and>
   info_map (snd (OpenAndRead (Some [(uid_A, []), (uid_B, [0x07230203, 1])])
     (ShaderUsageCacheReader_Read (CreateShaderModule example_ext) (vs_hash_of example_ext))
     empty_profiler)) uid_A = None"
proof -
  have null: "CreateShaderModule example_ext [] = VK_NULL_HANDLE"
    by (simp add: example_ext_def)
  have created: "CreateShaderModule example_ext [0x07230203, 1] = 42"
    by (simp add: example_ext_def)
  have different: "uid_A \<noteq> uid_B"
    by (simp add: uid_A_def uid_B_def)
  show ?thesis
    using replay_drops_null_modules
        [of "CreateShaderModule example_ext" "[]" "vs_hash_of example_ext" uid_A empty_profiler
          Map.empty "[(uid_A, []), (uid_B, [0x07230203, 1])]"]
      replay_drops_null_modules
        [of "CreateShaderModule example_ext" "[0x07230203, 1]" "vs_hash_of example_ext" uid_B
          empty_profiler Map.empty "[]"]
    by (simp add: null created different VK_NULL_HANDLE_def empty_profiler_def)
qed

text \<open>
  The claim C4 says that a zero-length payload is never inserted. The readers do not
  look at the length: with a driver that hands out a module for every code, the
  zero-length one included, the record is inserted as a live entry.
\<close>

theorem zero_length_record_inserted:
  "accepting_create [] \<noteq> VK_NULL_HANDLE \<and>
   ShaderCacheReader_Read accepting_create (vs_hash_of example_ext) uid_A [] Map.empty =
     [uid_A \<mapsto> \<lparr> initialized = True, compiled = True, module = 42 \<rparr>] \<and>
   info_map (ShaderUsageCacheReader_Read accepting_create (vs_hash_of example_ext) uid_A []
     empty_profiler) =
     [uid_A \<mapsto> \<lparr> initialized = True, compiled = True, module = 42 \<rparr>]"
proof -
  have created: "accepting_create [] \<noteq> VK_NULL_HANDLE" "accepting_create [] = 42"
    by (simp_all add: accepting_create_def VK_NULL_HANDLE_def)
  then show ?thesis
    by (simp add: ShaderCacheReader_Read_created ShaderUsageCacheReader_Read_created
        empty_profiler_def)
qed

section \<open>Canonical keys\<close>

text \<open>
  Clearing the cached hash and computing it again gives the hash of the uid data,
  whatever the cached hash was; doing it twice changes nothing more, and uids with the
  same data get the same canonical form.
\<close>

lemma canonical_uid:
  "CalculateUIDHash hash_of (ClearHASH uid) = uid\<lparr>HASH := hash_of (GetUidData uid)\<rparr>"
  by (simp add: CalculateUIDHash_def ClearHASH_def)

lemma canonical_uid_idempotent:
  "CalculateUIDHash hash_of (ClearHASH (CalculateUIDHash hash_of (ClearHASH uid))) =
     CalculateUIDHash hash_of (ClearHASH uid)"
  by (simp add: canonical_uid)

lemma canonical_uid_same_data:
  fixes a b :: "'d ShaderUid"
  shows "GetUidData a = GetUidData b \<Longrightarrow>
     CalculateUIDHash hash_of (ClearHASH a) = CalculateUIDHash hash_of (ClearHASH b)"
  by (simp add: canonical_uid)

text \<open>
  C5 at a replayed record whose key carries a stale cached hash: both readers compute
  the canonical uid and then index the shader map with the key as read, so the entry is
  stored under the stale key and the canonical key has no entry.
\<close>

theorem replayed_key_not_canonical:
  "CalculateUIDHash (vs_hash_of example_ext) (ClearHASH stale_uid) = uid_A \<and>
   stale_uid \<noteq> uid_A \<and>
   ShaderCacheReader_Read (CreateShaderModule example_ext) (vs_hash_of example_ext)
     stale_uid [0x07230203, 1] Map.empty =
     [stale_uid \<mapsto> \<lparr> initialized = True, compiled = True, module = 42 \<rparr>] \<and>
   info_map (ShaderUsageCacheReader_Read (CreateShaderModule example_ext) (vs_hash_of example_ext)
     stale_uid [0x07230203, 1] empty_profiler) =
     [stale_uid \<mapsto> \<lparr> initialized = True, compiled = True, module = 42 \<rparr>] \<and>
   info_map (ShaderUsageCacheReader_Read (CreateShaderModule example_ext) (vs_hash_of example_ext)
     stale_uid [0x07230203, 1] empty_profiler) uid_A = None"
proof -
  have created: "CreateShaderModule example_ext [0x07230203, 1] \<noteq> VK_NULL_HANDLE"
      "CreateShaderModule example_ext [0x07230203, 1] = 42"
    by (simp_all add: example_ext_def VK_NULL_HANDLE_def)
  have "CalculateUIDHash (vs_hash_of example_ext) (ClearHASH stale_uid) = uid_A"
    by (simp add: canonical_uid stale_uid_def uid_A_def example_ext_def)
  moreover have different: "stale_uid \<noteq> uid_A"
    by (simp add: stale_uid_def uid_A_def)
  ultimately show ?thesis
    using created
    by (simp add: ShaderCacheReader_Read_created ShaderUsageCacheReader_Read_created
        empty_profiler_def)
qed

section \<open>Precompilation by usage\<close>

text \<open>The keys of the traversal are keys of the category whose item satisfies the predicate.\<close>

lemma candidates_subset:
  "set (candidates p category predicate most_used_first) \<subseteq>
     {key \<in> fst ` set (usage p category). predicate (item_of p key)}"
  by (auto simp add: candidates_def Let_def image_iff)

text \<open>
  C6 at the usage example of the spec, with counts A: 5, B: 1, C: 3 and the entry of B
  compiled: the vertex pass of \<^verbatim>\<open>CompileShaders\<close> compiles A and then C and reports
  the total 2, but the index it reports is 0 at both visits, since \<^verbatim>\<open>shader_count\<close>
  is never advanced in the vertex and pixel callbacks.
\<close>

theorem CompileShaders_progress_index_stuck:
  "candidates (shader_map (m_vs_cache usage_state)) 1 (\<lambda>entry. \<not> compiled entry) True =
     [uid_A, uid_C] \<and>
   CompileVertexShader_calls (CompileShaders example_ext 1 usage_state) = [uid_A, uid_C] \<and>
   Host_UpdateProgressDialog_calls (CompileShaders example_ext 1 usage_state) =
     [(''Compiling Vertex shaders...'', 0, 2), (''Compiling Vertex shaders...'', 0, 2),
      ([], -1, -1)]"
  by (simp add: CompileShaders_def ForEachMostUsedByCategory_def candidates_def item_of_def
      CompileShaders_vertex_visit_def ClearHASH_def CalculateUIDHash_def
      vs_GetOrAdd_def GetOrAdd_def map_index_def test_and_set_def vs_store_def store_item_def
      CompileVertexShaderForUid_def Let_def new_vkShaderItem_def Append_def size_u32_def
      usage_state_def fresh_state_def empty_profiler_def example_ext_def
      uid_A_def uid_B_def uid_C_def VK_NULL_HANDLE_def)

end
